theory Spec2Isabelle
  imports Complex_Main "HOL-Library.Word"
begin

section \<open>JavaScript strings\<close>

text \<open>
  A JavaScript string is a sequence of 16-bit code units. String literals of the script
  are ASCII; \<open>js\<close> turns an Isabelle literal into the code units of the same characters.
\<close>

type_synonym code_unit = "16 word"
type_synonym jsstring = "code_unit list"

definition js :: "string \<Rightarrow> jsstring" where
  "js s = map (\<lambda>c. of_nat (of_char c)) s"

text \<open>
  \<open>String.prototype.trim\<close> removes the code units of the ECMAScript productions
  WhiteSpace and LineTerminator from both ends.
\<close>

definition isWhiteSpace :: "code_unit \<Rightarrow> bool" where
  "isWhiteSpace c \<longleftrightarrow>
     c = 0x0009 \<or> c = 0x000A \<or> c = 0x000B \<or> c = 0x000C \<or> c = 0x000D \<or> c = 0x0020 \<or>
     c = 0x00A0 \<or> c = 0x1680 \<or> (0x2000 \<le> c \<and> c \<le> 0x200A) \<or> c = 0x2028 \<or> c = 0x2029 \<or>
     c = 0x202F \<or> c = 0x205F \<or> c = 0x3000 \<or> c = 0xFEFF"

definition trim :: "jsstring \<Rightarrow> jsstring" where
  "trim s = rev (dropWhile isWhiteSpace (rev (dropWhile isWhiteSpace s)))"

section \<open>JSON text written by \<open>JSON.stringify\<close>\<close>

text \<open>
  \<open>saveTasks\<close> only ever serialises an array of objects \<open>{text, completed}\<close> with a string
  and a boolean, so \<open>JSON.stringify\<close> is modelled on that shape: a task is the pair of
  its text and its completed flag. \<open>QuoteJSONString\<close> follows ECMAScript: the short escapes,
  \<open>\uXXXX\<close> in lower-case hexadecimal for the other control characters and for
  surrogates that are not part of a pair, every other code unit as it is.
\<close>

type_synonym task = "jsstring \<times> bool"

definition hexDigit :: "nat \<Rightarrow> code_unit" where
  "hexDigit n = (if n < 10 then of_nat (48 + n) else of_nat (87 + n))"

definition unicodeEscape :: "code_unit \<Rightarrow> jsstring" where
  "unicodeEscape c =
     [0x5C, 0x75, hexDigit (unat c div 4096 mod 16), hexDigit (unat c div 256 mod 16),
      hexDigit (unat c div 16 mod 16), hexDigit (unat c mod 16)]"

definition isLeadingSurrogate :: "code_unit \<Rightarrow> bool" where
  "isLeadingSurrogate c \<longleftrightarrow> 0xD800 \<le> c \<and> c \<le> 0xDBFF"

definition isTrailingSurrogate :: "code_unit \<Rightarrow> bool" where
  "isTrailingSurrogate c \<longleftrightarrow> 0xDC00 \<le> c \<and> c \<le> 0xDFFF"

definition quoteCodeUnit :: "code_unit \<Rightarrow> jsstring" where
  "quoteCodeUnit c =
     (if c = 0x08 then [0x5C, 0x62]
      else if c = 0x09 then [0x5C, 0x74]
      else if c = 0x0A then [0x5C, 0x6E]
      else if c = 0x0C then [0x5C, 0x66]
      else if c = 0x0D then [0x5C, 0x72]
      else if c = 0x22 then [0x5C, 0x22]
      else if c = 0x5C then [0x5C, 0x5C]
      else if c < 0x20 \<or> isLeadingSurrogate c \<or> isTrailingSurrogate c then unicodeEscape c
      else [c])"

fun quoteChars :: "jsstring \<Rightarrow> jsstring" where
  "quoteChars [] = []"
| "quoteChars [c] = quoteCodeUnit c"
| "quoteChars (c # d # cs) =
     (if isLeadingSurrogate c \<and> isTrailingSurrogate d then c # d # quoteChars cs
      else quoteCodeUnit c @ quoteChars (d # cs))"

definition QuoteJSONString :: "jsstring \<Rightarrow> jsstring" where
  "QuoteJSONString s = 0x22 # quoteChars s @ [0x22]"

definition stringify_task :: "task \<Rightarrow> jsstring" where
  \<open>stringify_task t =
     js ''{"text":'' @ QuoteJSONString (fst t) @ js '',"completed":'' @
     js (if snd t then ''true'' else ''false'') @ js ''}''\<close>

fun stringify_elements :: "task list \<Rightarrow> jsstring" where
  "stringify_elements [] = []"
| "stringify_elements [t] = stringify_task t"
| "stringify_elements (t # u # ts) = stringify_task t @ 0x2C # stringify_elements (u # ts)"

definition JSON_stringify :: "task list \<Rightarrow> jsstring" where
  "JSON_stringify ts = 0x5B # stringify_elements ts @ [0x5D]"

section \<open>The markup of a task item\<close>

text \<open>
  \<open>addTask\<close> and \<open>loadTasks\<close> build an item by assigning
  \<^verbatim>\<open><span>${text}</span> <button class="deleteBtn">Delete</button> <button class="completeBtn">Complete</button>\<close>
  to \<open>innerHTML\<close>: the text is parsed as HTML, not escaped. The script then reads two
  things of the item: the label, as \<open>querySelector('span').innerText\<close>, and the buttons,
  as \<open>querySelector('.deleteBtn')\<close> and \<open>querySelector('.completeBtn')\<close>. \<open>innerHTML\<close>
  below gives both for a text, following the HTML tokenizer from the data state:
  \<^item> \<open>&\<close> starts a character reference: a named one by the longest name of the HTML
    table that matches (names without a semicolon included), a numeric one in decimal or
    hexadecimal; where none matches, \<open>&\<close> is a character;
  \<^item> \<open><!--\<close> starts a comment, which ends at \<open>-->\<close> or \<open>--!>\<close> (at once at \<open>>\<close> or \<open>->\<close>);
    a comment that does not end in the text runs to the end of the markup and swallows
    the closing of the span and both buttons;
  \<^item> \<open><!\<close>, \<open><?\<close> and \<open></\<close> before anything but a letter start a bogus comment or a
    doctype, which end at the next \<open>>\<close> and leave nothing in the item; \<open></>\<close> is dropped;
  \<^item> \<open><\<close> before any other character that is not a letter is a character.
  The label is the character data as rendered: runs of spaces and tabs are one space
  (the span is taken to be rendered inline with the initial \<open>white-space\<close> and
  \<open>text-transform\<close>).
  The result is \<open>None\<close> where the browser's tree builder or layout decide what the item
  is, which this model does not follow: a start or end tag in the text (\<open><\<close> or \<open></\<close>
  before a letter), a bogus comment or doctype that does not end in the text, control
  characters other than the tab, unpaired surrogates, the separators U+2028 and U+2029,
  and white space at the beginning or the end of the character data.
\<close>

definition isAlnum :: "code_unit \<Rightarrow> bool" where
  "isAlnum c \<longleftrightarrow> (0x30 \<le> c \<and> c \<le> 0x39) \<or> (0x41 \<le> c \<and> c \<le> 0x5A) \<or> (0x61 \<le> c \<and> c \<le> 0x7A)"

definition isAlpha :: "code_unit \<Rightarrow> bool" where
  "isAlpha c \<longleftrightarrow> (0x41 \<le> c \<and> c \<le> 0x5A) \<or> (0x61 \<le> c \<and> c \<le> 0x7A)"

text \<open>
  The named character references of the HTML standard, each with the UTF-16 code units
  it stands for: first the names that are also recognised without their semicolon, then
  all others, by their first letter.
\<close>

definition legacyReferences :: "(string \<times> int list) list" where
  "legacyReferences =
   [(''amp;'', [38]), (''amp'', [38]), (''lt;'', [60]), (''lt'', [60]), (''gt;'', [62]),
     (''gt'', [62]), (''quot;'', [34]), (''quot'', [34]), (''AElig;'', [198]),
     (''AElig'', [198]), (''AMP;'', [38]), (''AMP'', [38]), (''Aacute;'', [193]),
     (''Aacute'', [193]), (''Acirc;'', [194]), (''Acirc'', [194]), (''Agrave;'', [192]),
     (''Agrave'', [192]), (''Aring;'', [197]), (''Aring'', [197]), (''Atilde;'', [195]),
     (''Atilde'', [195]), (''Auml;'', [196]), (''Auml'', [196]), (''COPY;'', [169]),
     (''COPY'', [169]), (''Ccedil;'', [199]), (''Ccedil'', [199]), (''ETH;'', [208]),
     (''ETH'', [208]), (''Eacute;'', [201]), (''Eacute'', [201]), (''Ecirc;'', [202]),
     (''Ecirc'', [202]), (''Egrave;'', [200]), (''Egrave'', [200]), (''Euml;'', [203]),
     (''Euml'', [203]), (''GT;'', [62]), (''GT'', [62]), (''Iacute;'', [205]),
     (''Iacute'', [205]), (''Icirc;'', [206]), (''Icirc'', [206]), (''Igrave;'', [204]),
     (''Igrave'', [204]), (''Iuml;'', [207]), (''Iuml'', [207]), (''LT;'', [60]), (''LT'', [60]),
     (''Ntilde;'', [209]), (''Ntilde'', [209]), (''Oacute;'', [211]), (''Oacute'', [211]),
     (''Ocirc;'', [212]), (''Ocirc'', [212]), (''Ograve;'', [210]), (''Ograve'', [210]),
     (''Oslash;'', [216]), (''Oslash'', [216]), (''Otilde;'', [213]), (''Otilde'', [213]),
     (''Ouml;'', [214]), (''Ouml'', [214]), (''QUOT;'', [34]), (''QUOT'', [34]),
     (''REG;'', [174]), (''REG'', [174]), (''THORN;'', [222]), (''THORN'', [222]),
     (''Uacute;'', [218]), (''Uacute'', [218]), (''Ucirc;'', [219]), (''Ucirc'', [219]),
     (''Ugrave;'', [217]), (''Ugrave'', [217]), (''Uuml;'', [220]), (''Uuml'', [220]),
     (''Yacute;'', [221]), (''Yacute'', [221]), (''aacute;'', [225]), (''aacute'', [225]),
     (''acirc;'', [226]), (''acirc'', [226]), (''acute;'', [180]), (''acute'', [180]),
     (''aelig;'', [230]), (''aelig'', [230]), (''agrave;'', [224]), (''agrave'', [224]),
     (''aring;'', [229]), (''aring'', [229]), (''atilde;'', [227]), (''atilde'', [227]),
     (''auml;'', [228]), (''auml'', [228]), (''brvbar;'', [166]), (''brvbar'', [166]),
     (''ccedil;'', [231]), (''ccedil'', [231]), (''cedil;'', [184]), (''cedil'', [184]),
     (''cent;'', [162]), (''cent'', [162]), (''copy;'', [169]), (''copy'', [169]),
     (''curren;'', [164]), (''curren'', [164]), (''deg;'', [176]), (''deg'', [176]),
     (''divide;'', [247]), (''divide'', [247]), (''eacute;'', [233]), (''eacute'', [233]),
     (''ecirc;'', [234]), (''ecirc'', [234]), (''egrave;'', [232]), (''egrave'', [232]),
     (''eth;'', [240]), (''eth'', [240]), (''euml;'', [235]), (''euml'', [235]),
     (''frac12;'', [189]), (''frac12'', [189]), (''frac14;'', [188]), (''frac14'', [188]),
     (''frac34;'', [190]), (''frac34'', [190]), (''iacute;'', [237]), (''iacute'', [237]),
     (''icirc;'', [238]), (''icirc'', [238]), (''iexcl;'', [161]), (''iexcl'', [161]),
     (''igrave;'', [236]), (''igrave'', [236]), (''iquest;'', [191]), (''iquest'', [191]),
     (''iuml;'', [239]), (''iuml'', [239]), (''laquo;'', [171]), (''laquo'', [171]),
     (''macr;'', [175]), (''macr'', [175]), (''micro;'', [181]), (''micro'', [181]),
     (''middot;'', [183]), (''middot'', [183]), (''nbsp;'', [160]), (''nbsp'', [160]),
     (''not;'', [172]), (''not'', [172]), (''ntilde;'', [241]), (''ntilde'', [241]),
     (''oacute;'', [243]), (''oacute'', [243]), (''ocirc;'', [244]), (''ocirc'', [244]),
     (''ograve;'', [242]), (''ograve'', [242]), (''ordf;'', [170]), (''ordf'', [170]),
     (''ordm;'', [186]), (''ordm'', [186]), (''oslash;'', [248]), (''oslash'', [248]),
     (''otilde;'', [245]), (''otilde'', [245]), (''ouml;'', [246]), (''ouml'', [246]),
     (''para;'', [182]), (''para'', [182]), (''plusmn;'', [177]), (''plusmn'', [177]),
     (''pound;'', [163]), (''pound'', [163]), (''raquo;'', [187]), (''raquo'', [187]),
     (''reg;'', [174]), (''reg'', [174]), (''sect;'', [167]), (''sect'', [167]),
     (''shy;'', [173]), (''shy'', [173]), (''sup1;'', [185]), (''sup1'', [185]),
     (''sup2;'', [178]), (''sup2'', [178]), (''sup3;'', [179]), (''sup3'', [179]),
     (''szlig;'', [223]), (''szlig'', [223]), (''thorn;'', [254]), (''thorn'', [254]),
     (''times;'', [215]), (''times'', [215]), (''uacute;'', [250]), (''uacute'', [250]),
     (''ucirc;'', [251]), (''ucirc'', [251]), (''ugrave;'', [249]), (''ugrave'', [249]),
     (''uml;'', [168]), (''uml'', [168]), (''uuml;'', [252]), (''uuml'', [252]),
     (''yacute;'', [253]), (''yacute'', [253]), (''yen;'', [165]), (''yen'', [165]),
     (''yuml;'', [255]), (''yuml'', [255])]"

definition references_A :: "(string \<times> int list) list" where
  "references_A =
   [(''Abreve;'', [258]), (''Acy;'', [1040]), (''Afr;'', [55349, 56580]), (''Alpha;'', [913]),
     (''Amacr;'', [256]), (''And;'', [10835]), (''Aogon;'', [260]), (''Aopf;'', [55349, 56632]),
     (''ApplyFunction;'', [8289]), (''Ascr;'', [55349, 56476]), (''Assign;'', [8788])]"

definition references_B :: "(string \<times> int list) list" where
  "references_B =
   [(''Backslash;'', [8726]), (''Barv;'', [10983]), (''Barwed;'', [8966]), (''Bcy;'', [1041]),
     (''Because;'', [8757]), (''Bernoullis;'', [8492]), (''Beta;'', [914]),
     (''Bfr;'', [55349, 56581]), (''Bopf;'', [55349, 56633]), (''Breve;'', [728]),
     (''Bscr;'', [8492]), (''Bumpeq;'', [8782])]"

definition references_C :: "(string \<times> int list) list" where
  "references_C =
   [(''CHcy;'', [1063]), (''Cacute;'', [262]), (''Cap;'', [8914]),
     (''CapitalDifferentialD;'', [8517]), (''Cayleys;'', [8493]), (''Ccaron;'', [268]),
     (''Ccirc;'', [264]), (''Cconint;'', [8752]), (''Cdot;'', [266]), (''Cedilla;'', [184]),
     (''CenterDot;'', [183]), (''Cfr;'', [8493]), (''Chi;'', [935]), (''CircleDot;'', [8857]),
     (''CircleMinus;'', [8854]), (''CirclePlus;'', [8853]), (''CircleTimes;'', [8855]),
     (''ClockwiseContourIntegral;'', [8754]), (''CloseCurlyDoubleQuote;'', [8221]),
     (''CloseCurlyQuote;'', [8217]), (''Colon;'', [8759]), (''Colone;'', [10868]),
     (''Congruent;'', [8801]), (''Conint;'', [8751]), (''ContourIntegral;'', [8750]),
     (''Copf;'', [8450]), (''Coproduct;'', [8720]),
     (''CounterClockwiseContourIntegral;'', [8755]), (''Cross;'', [10799]),
     (''Cscr;'', [55349, 56478]), (''Cup;'', [8915]), (''CupCap;'', [8781])]"

definition references_D :: "(string \<times> int list) list" where
  "references_D =
   [(''DD;'', [8517]), (''DDotrahd;'', [10513]), (''DJcy;'', [1026]), (''DScy;'', [1029]),
     (''DZcy;'', [1039]), (''Dagger;'', [8225]), (''Darr;'', [8609]), (''Dashv;'', [10980]),
     (''Dcaron;'', [270]), (''Dcy;'', [1044]), (''Del;'', [8711]), (''Delta;'', [916]),
     (''Dfr;'', [55349, 56583]), (''DiacriticalAcute;'', [180]), (''DiacriticalDot;'', [729]),
     (''DiacriticalDoubleAcute;'', [733]), (''DiacriticalGrave;'', [96]),
     (''DiacriticalTilde;'', [732]), (''Diamond;'', [8900]), (''DifferentialD;'', [8518]),
     (''Dopf;'', [55349, 56635]), (''Dot;'', [168]), (''DotDot;'', [8412]),
     (''DotEqual;'', [8784]), (''DoubleContourIntegral;'', [8751]), (''DoubleDot;'', [168]),
     (''DoubleDownArrow;'', [8659]), (''DoubleLeftArrow;'', [8656]),
     (''DoubleLeftRightArrow;'', [8660]), (''DoubleLeftTee;'', [10980]),
     (''DoubleLongLeftArrow;'', [10232]), (''DoubleLongLeftRightArrow;'', [10234]),
     (''DoubleLongRightArrow;'', [10233]), (''DoubleRightArrow;'', [8658]),
     (''DoubleRightTee;'', [8872]), (''DoubleUpArrow;'', [8657]),
     (''DoubleUpDownArrow;'', [8661]), (''DoubleVerticalBar;'', [8741]),
     (''DownArrow;'', [8595]), (''DownArrowBar;'', [10515]), (''DownArrowUpArrow;'', [8693]),
     (''DownBreve;'', [785]), (''DownLeftRightVector;'', [10576]),
     (''DownLeftTeeVector;'', [10590]), (''DownLeftVector;'', [8637]),
     (''DownLeftVectorBar;'', [10582]), (''DownRightTeeVector;'', [10591]),
     (''DownRightVector;'', [8641]), (''DownRightVectorBar;'', [10583]), (''DownTee;'', [8868]),
     (''DownTeeArrow;'', [8615]), (''Downarrow;'', [8659]), (''Dscr;'', [55349, 56479]),
     (''Dstrok;'', [272])]"

definition references_E :: "(string \<times> int list) list" where
  "references_E =
   [(''ENG;'', [330]), (''Ecaron;'', [282]), (''Ecy;'', [1069]), (''Edot;'', [278]),
     (''Efr;'', [55349, 56584]), (''Element;'', [8712]), (''Emacr;'', [274]),
     (''EmptySmallSquare;'', [9723]), (''EmptyVerySmallSquare;'', [9643]), (''Eogon;'', [280]),
     (''Eopf;'', [55349, 56636]), (''Epsilon;'', [917]), (''Equal;'', [10869]),
     (''EqualTilde;'', [8770]), (''Equilibrium;'', [8652]), (''Escr;'', [8496]),
     (''Esim;'', [10867]), (''Eta;'', [919]), (''Exists;'', [8707]), (''ExponentialE;'', [8519])]"

definition references_F :: "(string \<times> int list) list" where
  "references_F =
   [(''Fcy;'', [1060]), (''Ffr;'', [55349, 56585]), (''FilledSmallSquare;'', [9724]),
     (''FilledVerySmallSquare;'', [9642]), (''Fopf;'', [55349, 56637]), (''ForAll;'', [8704]),
     (''Fouriertrf;'', [8497]), (''Fscr;'', [8497])]"

definition references_G :: "(string \<times> int list) list" where
  "references_G =
   [(''GJcy;'', [1027]), (''Gamma;'', [915]), (''Gammad;'', [988]), (''Gbreve;'', [286]),
     (''Gcedil;'', [290]), (''Gcirc;'', [284]), (''Gcy;'', [1043]), (''Gdot;'', [288]),
     (''Gfr;'', [55349, 56586]), (''Gg;'', [8921]), (''Gopf;'', [55349, 56638]),
     (''GreaterEqual;'', [8805]), (''GreaterEqualLess;'', [8923]),
     (''GreaterFullEqual;'', [8807]), (''GreaterGreater;'', [10914]), (''GreaterLess;'', [8823]),
     (''GreaterSlantEqual;'', [10878]), (''GreaterTilde;'', [8819]), (''Gscr;'', [55349, 56482]),
     (''Gt;'', [8811])]"

definition references_H :: "(string \<times> int list) list" where
  "references_H =
   [(''HARDcy;'', [1066]), (''Hacek;'', [711]), (''Hat;'', [94]), (''Hcirc;'', [292]),
     (''Hfr;'', [8460]), (''HilbertSpace;'', [8459]), (''Hopf;'', [8461]),
     (''HorizontalLine;'', [9472]), (''Hscr;'', [8459]), (''Hstrok;'', [294]),
     (''HumpDownHump;'', [8782]), (''HumpEqual;'', [8783])]"

definition references_I :: "(string \<times> int list) list" where
  "references_I =
   [(''IEcy;'', [1045]), (''IJlig;'', [306]), (''IOcy;'', [1025]), (''Icy;'', [1048]),
     (''Idot;'', [304]), (''Ifr;'', [8465]), (''Im;'', [8465]), (''Imacr;'', [298]),
     (''ImaginaryI;'', [8520]), (''Implies;'', [8658]), (''Int;'', [8748]),
     (''Integral;'', [8747]), (''Intersection;'', [8898]), (''InvisibleComma;'', [8291]),
     (''InvisibleTimes;'', [8290]), (''Iogon;'', [302]), (''Iopf;'', [55349, 56640]),
     (''Iota;'', [921]), (''Iscr;'', [8464]), (''Itilde;'', [296]), (''Iukcy;'', [1030])]"

definition references_J :: "(string \<times> int list) list" where
  "references_J =
   [(''Jcirc;'', [308]), (''Jcy;'', [1049]), (''Jfr;'', [55349, 56589]),
     (''Jopf;'', [55349, 56641]), (''Jscr;'', [55349, 56485]), (''Jsercy;'', [1032]),
     (''Jukcy;'', [1028])]"

definition references_K :: "(string \<times> int list) list" where
  "references_K =
   [(''KHcy;'', [1061]), (''KJcy;'', [1036]), (''Kappa;'', [922]), (''Kcedil;'', [310]),
     (''Kcy;'', [1050]), (''Kfr;'', [55349, 56590]), (''Kopf;'', [55349, 56642]),
     (''Kscr;'', [55349, 56486])]"

definition references_L :: "(string \<times> int list) list" where
  "references_L =
   [(''LJcy;'', [1033]), (''Lacute;'', [313]), (''Lambda;'', [923]), (''Lang;'', [10218]),
     (''Laplacetrf;'', [8466]), (''Larr;'', [8606]), (''Lcaron;'', [317]), (''Lcedil;'', [315]),
     (''Lcy;'', [1051]), (''LeftAngleBracket;'', [10216]), (''LeftArrow;'', [8592]),
     (''LeftArrowBar;'', [8676]), (''LeftArrowRightArrow;'', [8646]), (''LeftCeiling;'', [8968]),
     (''LeftDoubleBracket;'', [10214]), (''LeftDownTeeVector;'', [10593]),
     (''LeftDownVector;'', [8643]), (''LeftDownVectorBar;'', [10585]), (''LeftFloor;'', [8970]),
     (''LeftRightArrow;'', [8596]), (''LeftRightVector;'', [10574]), (''LeftTee;'', [8867]),
     (''LeftTeeArrow;'', [8612]), (''LeftTeeVector;'', [10586]), (''LeftTriangle;'', [8882]),
     (''LeftTriangleBar;'', [10703]), (''LeftTriangleEqual;'', [8884]),
     (''LeftUpDownVector;'', [10577]), (''LeftUpTeeVector;'', [10592]),
     (''LeftUpVector;'', [8639]), (''LeftUpVectorBar;'', [10584]), (''LeftVector;'', [8636]),
     (''LeftVectorBar;'', [10578]), (''Leftarrow;'', [8656]), (''Leftrightarrow;'', [8660]),
     (''LessEqualGreater;'', [8922]), (''LessFullEqual;'', [8806]), (''LessGreater;'', [8822]),
     (''LessLess;'', [10913]), (''LessSlantEqual;'', [10877]), (''LessTilde;'', [8818]),
     (''Lfr;'', [55349, 56591]), (''Ll;'', [8920]), (''Lleftarrow;'', [8666]),
     (''Lmidot;'', [319]), (''LongLeftArrow;'', [10229]), (''LongLeftRightArrow;'', [10231]),
     (''LongRightArrow;'', [10230]), (''Longleftarrow;'', [10232]),
     (''Longleftrightarrow;'', [10234]), (''Longrightarrow;'', [10233]),
     (''Lopf;'', [55349, 56643]), (''LowerLeftArrow;'', [8601]), (''LowerRightArrow;'', [8600]),
     (''Lscr;'', [8466]), (''Lsh;'', [8624]), (''Lstrok;'', [321]), (''Lt;'', [8810])]"

definition references_M :: "(string \<times> int list) list" where
  "references_M =
   [(''Map;'', [10501]), (''Mcy;'', [1052]), (''MediumSpace;'', [8287]),
     (''Mellintrf;'', [8499]), (''Mfr;'', [55349, 56592]), (''MinusPlus;'', [8723]),
     (''Mopf;'', [55349, 56644]), (''Mscr;'', [8499]), (''Mu;'', [924])]"

definition references_N :: "(string \<times> int list) list" where
  "references_N =
   [(''NJcy;'', [1034]), (''Nacute;'', [323]), (''Ncaron;'', [327]), (''Ncedil;'', [325]),
     (''Ncy;'', [1053]), (''NegativeMediumSpace;'', [8203]), (''NegativeThickSpace;'', [8203]),
     (''NegativeThinSpace;'', [8203]), (''NegativeVeryThinSpace;'', [8203]),
     (''NestedGreaterGreater;'', [8811]), (''NestedLessLess;'', [8810]), (''NewLine;'', [10]),
     (''Nfr;'', [55349, 56593]), (''NoBreak;'', [8288]), (''NonBreakingSpace;'', [160]),
     (''Nopf;'', [8469]), (''Not;'', [10988]), (''NotCongruent;'', [8802]),
     (''NotCupCap;'', [8813]), (''NotDoubleVerticalBar;'', [8742]), (''NotElement;'', [8713]),
     (''NotEqual;'', [8800]), (''NotEqualTilde;'', [8770, 824]), (''NotExists;'', [8708]),
     (''NotGreater;'', [8815]), (''NotGreaterEqual;'', [8817]),
     (''NotGreaterFullEqual;'', [8807, 824]), (''NotGreaterGreater;'', [8811, 824]),
     (''NotGreaterLess;'', [8825]), (''NotGreaterSlantEqual;'', [10878, 824]),
     (''NotGreaterTilde;'', [8821]), (''NotHumpDownHump;'', [8782, 824]),
     (''NotHumpEqual;'', [8783, 824]), (''NotLeftTriangle;'', [8938]),
     (''NotLeftTriangleBar;'', [10703, 824]), (''NotLeftTriangleEqual;'', [8940]),
     (''NotLess;'', [8814]), (''NotLessEqual;'', [8816]), (''NotLessGreater;'', [8824]),
     (''NotLessLess;'', [8810, 824]), (''NotLessSlantEqual;'', [10877, 824]),
     (''NotLessTilde;'', [8820]), (''NotNestedGreaterGreater;'', [10914, 824]),
     (''NotNestedLessLess;'', [10913, 824]), (''NotPrecedes;'', [8832]),
     (''NotPrecedesEqual;'', [10927, 824]), (''NotPrecedesSlantEqual;'', [8928]),
     (''NotReverseElement;'', [8716]), (''NotRightTriangle;'', [8939]),
     (''NotRightTriangleBar;'', [10704, 824]), (''NotRightTriangleEqual;'', [8941]),
     (''NotSquareSubset;'', [8847, 824]), (''NotSquareSubsetEqual;'', [8930]),
     (''NotSquareSuperset;'', [8848, 824]), (''NotSquareSupersetEqual;'', [8931]),
     (''NotSubset;'', [8834, 8402]), (''NotSubsetEqual;'', [8840]), (''NotSucceeds;'', [8833]),
     (''NotSucceedsEqual;'', [10928, 824]), (''NotSucceedsSlantEqual;'', [8929]),
     (''NotSucceedsTilde;'', [8831, 824]), (''NotSuperset;'', [8835, 8402]),
     (''NotSupersetEqual;'', [8841]), (''NotTilde;'', [8769]), (''NotTildeEqual;'', [8772]),
     (''NotTildeFullEqual;'', [8775]), (''NotTildeTilde;'', [8777]),
     (''NotVerticalBar;'', [8740]), (''Nscr;'', [55349, 56489]), (''Nu;'', [925])]"

definition references_O :: "(string \<times> int list) list" where
  "references_O =
   [(''OElig;'', [338]), (''Ocy;'', [1054]), (''Odblac;'', [336]), (''Ofr;'', [55349, 56594]),
     (''Omacr;'', [332]), (''Omega;'', [937]), (''Omicron;'', [927]),
     (''Oopf;'', [55349, 56646]), (''OpenCurlyDoubleQuote;'', [8220]),
     (''OpenCurlyQuote;'', [8216]), (''Or;'', [10836]), (''Oscr;'', [55349, 56490]),
     (''Otimes;'', [10807]), (''OverBar;'', [8254]), (''OverBrace;'', [9182]),
     (''OverBracket;'', [9140]), (''OverParenthesis;'', [9180])]"

definition references_P :: "(string \<times> int list) list" where
  "references_P =
   [(''PartialD;'', [8706]), (''Pcy;'', [1055]), (''Pfr;'', [55349, 56595]), (''Phi;'', [934]),
     (''Pi;'', [928]), (''PlusMinus;'', [177]), (''Poincareplane;'', [8460]),
     (''Popf;'', [8473]), (''Pr;'', [10939]), (''Precedes;'', [8826]),
     (''PrecedesEqual;'', [10927]), (''PrecedesSlantEqual;'', [8828]),
     (''PrecedesTilde;'', [8830]), (''Prime;'', [8243]), (''Product;'', [8719]),
     (''Proportion;'', [8759]), (''Proportional;'', [8733]), (''Pscr;'', [55349, 56491]),
     (''Psi;'', [936])]"

definition references_Q :: "(string \<times> int list) list" where
  "references_Q =
   [(''Qfr;'', [55349, 56596]), (''Qopf;'', [8474]), (''Qscr;'', [55349, 56492])]"

definition references_R :: "(string \<times> int list) list" where
  "references_R =
   [(''RBarr;'', [10512]), (''Racute;'', [340]), (''Rang;'', [10219]), (''Rarr;'', [8608]),
     (''Rarrtl;'', [10518]), (''Rcaron;'', [344]), (''Rcedil;'', [342]), (''Rcy;'', [1056]),
     (''Re;'', [8476]), (''ReverseElement;'', [8715]), (''ReverseEquilibrium;'', [8651]),
     (''ReverseUpEquilibrium;'', [10607]), (''Rfr;'', [8476]), (''Rho;'', [929]),
     (''RightAngleBracket;'', [10217]), (''RightArrow;'', [8594]), (''RightArrowBar;'', [8677]),
     (''RightArrowLeftArrow;'', [8644]), (''RightCeiling;'', [8969]),
     (''RightDoubleBracket;'', [10215]), (''RightDownTeeVector;'', [10589]),
     (''RightDownVector;'', [8642]), (''RightDownVectorBar;'', [10581]),
     (''RightFloor;'', [8971]), (''RightTee;'', [8866]), (''RightTeeArrow;'', [8614]),
     (''RightTeeVector;'', [10587]), (''RightTriangle;'', [8883]),
     (''RightTriangleBar;'', [10704]), (''RightTriangleEqual;'', [8885]),
     (''RightUpDownVector;'', [10575]), (''RightUpTeeVector;'', [10588]),
     (''RightUpVector;'', [8638]), (''RightUpVectorBar;'', [10580]), (''RightVector;'', [8640]),
     (''RightVectorBar;'', [10579]), (''Rightarrow;'', [8658]), (''Ropf;'', [8477]),
     (''RoundImplies;'', [10608]), (''Rrightarrow;'', [8667]), (''Rscr;'', [8475]),
     (''Rsh;'', [8625]), (''RuleDelayed;'', [10740])]"

definition references_S :: "(string \<times> int list) list" where
  "references_S =
   [(''SHCHcy;'', [1065]), (''SHcy;'', [1064]), (''SOFTcy;'', [1068]), (''Sacute;'', [346]),
     (''Sc;'', [10940]), (''Scaron;'', [352]), (''Scedil;'', [350]), (''Scirc;'', [348]),
     (''Scy;'', [1057]), (''Sfr;'', [55349, 56598]), (''ShortDownArrow;'', [8595]),
     (''ShortLeftArrow;'', [8592]), (''ShortRightArrow;'', [8594]), (''ShortUpArrow;'', [8593]),
     (''Sigma;'', [931]), (''SmallCircle;'', [8728]), (''Sopf;'', [55349, 56650]),
     (''Sqrt;'', [8730]), (''Square;'', [9633]), (''SquareIntersection;'', [8851]),
     (''SquareSubset;'', [8847]), (''SquareSubsetEqual;'', [8849]),
     (''SquareSuperset;'', [8848]), (''SquareSupersetEqual;'', [8850]),
     (''SquareUnion;'', [8852]), (''Sscr;'', [55349, 56494]), (''Star;'', [8902]),
     (''Sub;'', [8912]), (''Subset;'', [8912]), (''SubsetEqual;'', [8838]),
     (''Succeeds;'', [8827]), (''SucceedsEqual;'', [10928]), (''SucceedsSlantEqual;'', [8829]),
     (''SucceedsTilde;'', [8831]), (''SuchThat;'', [8715]), (''Sum;'', [8721]),
     (''Sup;'', [8913]), (''Superset;'', [8835]), (''SupersetEqual;'', [8839]),
     (''Supset;'', [8913])]"

definition references_T :: "(string \<times> int list) list" where
  "references_T =
   [(''TRADE;'', [8482]), (''TSHcy;'', [1035]), (''TScy;'', [1062]), (''Tab;'', [9]),
     (''Tau;'', [932]), (''Tcaron;'', [356]), (''Tcedil;'', [354]), (''Tcy;'', [1058]),
     (''Tfr;'', [55349, 56599]), (''Therefore;'', [8756]), (''Theta;'', [920]),
     (''ThickSpace;'', [8287, 8202]), (''ThinSpace;'', [8201]), (''Tilde;'', [8764]),
     (''TildeEqual;'', [8771]), (''TildeFullEqual;'', [8773]), (''TildeTilde;'', [8776]),
     (''Topf;'', [55349, 56651]), (''TripleDot;'', [8411]), (''Tscr;'', [55349, 56495]),
     (''Tstrok;'', [358])]"

definition references_U :: "(string \<times> int list) list" where
  "references_U =
   [(''Uarr;'', [8607]), (''Uarrocir;'', [10569]), (''Ubrcy;'', [1038]), (''Ubreve;'', [364]),
     (''Ucy;'', [1059]), (''Udblac;'', [368]), (''Ufr;'', [55349, 56600]), (''Umacr;'', [362]),
     (''UnderBar;'', [95]), (''UnderBrace;'', [9183]), (''UnderBracket;'', [9141]),
     (''UnderParenthesis;'', [9181]), (''Union;'', [8899]), (''UnionPlus;'', [8846]),
     (''Uogon;'', [370]), (''Uopf;'', [55349, 56652]), (''UpArrow;'', [8593]),
     (''UpArrowBar;'', [10514]), (''UpArrowDownArrow;'', [8645]), (''UpDownArrow;'', [8597]),
     (''UpEquilibrium;'', [10606]), (''UpTee;'', [8869]), (''UpTeeArrow;'', [8613]),
     (''Uparrow;'', [8657]), (''Updownarrow;'', [8661]), (''UpperLeftArrow;'', [8598]),
     (''UpperRightArrow;'', [8599]), (''Upsi;'', [978]), (''Upsilon;'', [933]),
     (''Uring;'', [366]), (''Uscr;'', [55349, 56496]), (''Utilde;'', [360])]"

definition references_V :: "(string \<times> int list) list" where
  "references_V =
   [(''VDash;'', [8875]), (''Vbar;'', [10987]), (''Vcy;'', [1042]), (''Vdash;'', [8873]),
     (''Vdashl;'', [10982]), (''Vee;'', [8897]), (''Verbar;'', [8214]), (''Vert;'', [8214]),
     (''VerticalBar;'', [8739]), (''VerticalLine;'', [124]), (''VerticalSeparator;'', [10072]),
     (''VerticalTilde;'', [8768]), (''VeryThinSpace;'', [8202]), (''Vfr;'', [55349, 56601]),
     (''Vopf;'', [55349, 56653]), (''Vscr;'', [55349, 56497]), (''Vvdash;'', [8874])]"

definition references_W :: "(string \<times> int list) list" where
  "references_W =
   [(''Wcirc;'', [372]), (''Wedge;'', [8896]), (''Wfr;'', [55349, 56602]),
     (''Wopf;'', [55349, 56654]), (''Wscr;'', [55349, 56498])]"

definition references_X :: "(string \<times> int list) list" where
  "references_X =
   [(''Xfr;'', [55349, 56603]), (''Xi;'', [926]), (''Xopf;'', [55349, 56655]),
     (''Xscr;'', [55349, 56499])]"

definition references_Y :: "(string \<times> int list) list" where
  "references_Y =
   [(''YAcy;'', [1071]), (''YIcy;'', [1031]), (''YUcy;'', [1070]), (''Ycirc;'', [374]),
     (''Ycy;'', [1067]), (''Yfr;'', [55349, 56604]), (''Yopf;'', [55349, 56656]),
     (''Yscr;'', [55349, 56500]), (''Yuml;'', [376])]"

definition references_Z :: "(string \<times> int list) list" where
  "references_Z =
   [(''ZHcy;'', [1046]), (''Zacute;'', [377]), (''Zcaron;'', [381]), (''Zcy;'', [1047]),
     (''Zdot;'', [379]), (''ZeroWidthSpace;'', [8203]), (''Zeta;'', [918]), (''Zfr;'', [8488]),
     (''Zopf;'', [8484]), (''Zscr;'', [55349, 56501])]"

definition references_a :: "(string \<times> int list) list" where
  "references_a =
   [(''abreve;'', [259]), (''ac;'', [8766]), (''acE;'', [8766, 819]), (''acd;'', [8767]),
     (''acy;'', [1072]), (''af;'', [8289]), (''afr;'', [55349, 56606]), (''alefsym;'', [8501]),
     (''aleph;'', [8501]), (''alpha;'', [945]), (''amacr;'', [257]), (''amalg;'', [10815]),
     (''and;'', [8743]), (''andand;'', [10837]), (''andd;'', [10844]), (''andslope;'', [10840]),
     (''andv;'', [10842]), (''ang;'', [8736]), (''ange;'', [10660]), (''angle;'', [8736]),
     (''angmsd;'', [8737]), (''angmsdaa;'', [10664]), (''angmsdab;'', [10665]),
     (''angmsdac;'', [10666]), (''angmsdad;'', [10667]), (''angmsdae;'', [10668]),
     (''angmsdaf;'', [10669]), (''angmsdag;'', [10670]), (''angmsdah;'', [10671]),
     (''angrt;'', [8735]), (''angrtvb;'', [8894]), (''angrtvbd;'', [10653]),
     (''angsph;'', [8738]), (''angst;'', [197]), (''angzarr;'', [9084]), (''aogon;'', [261]),
     (''aopf;'', [55349, 56658]), (''ap;'', [8776]), (''apE;'', [10864]), (''apacir;'', [10863]),
     (''ape;'', [8778]), (''apid;'', [8779]), (''apos;'', [39]), (''approx;'', [8776]),
     (''approxeq;'', [8778]), (''ascr;'', [55349, 56502]), (''ast;'', [42]),
     (''asymp;'', [8776]), (''asympeq;'', [8781]), (''awconint;'', [8755]), (''awint;'', [10769])]"

definition references_b :: "(string \<times> int list) list" where
  "references_b =
   [(''bNot;'', [10989]), (''backcong;'', [8780]), (''backepsilon;'', [1014]),
     (''backprime;'', [8245]), (''backsim;'', [8765]), (''backsimeq;'', [8909]),
     (''barvee;'', [8893]), (''barwed;'', [8965]), (''barwedge;'', [8965]), (''bbrk;'', [9141]),
     (''bbrktbrk;'', [9142]), (''bcong;'', [8780]), (''bcy;'', [1073]), (''bdquo;'', [8222]),
     (''becaus;'', [8757]), (''because;'', [8757]), (''bemptyv;'', [10672]),
     (''bepsi;'', [1014]), (''bernou;'', [8492]), (''beta;'', [946]), (''beth;'', [8502]),
     (''between;'', [8812]), (''bfr;'', [55349, 56607]), (''bigcap;'', [8898]),
     (''bigcirc;'', [9711]), (''bigcup;'', [8899]), (''bigodot;'', [10752]),
     (''bigoplus;'', [10753]), (''bigotimes;'', [10754]), (''bigsqcup;'', [10758]),
     (''bigstar;'', [9733]), (''bigtriangledown;'', [9661]), (''bigtriangleup;'', [9651]),
     (''biguplus;'', [10756]), (''bigvee;'', [8897]), (''bigwedge;'', [8896]),
     (''bkarow;'', [10509]), (''blacklozenge;'', [10731]), (''blacksquare;'', [9642]),
     (''blacktriangle;'', [9652]), (''blacktriangledown;'', [9662]),
     (''blacktriangleleft;'', [9666]), (''blacktriangleright;'', [9656]), (''blank;'', [9251]),
     (''blk12;'', [9618]), (''blk14;'', [9617]), (''blk34;'', [9619]), (''block;'', [9608]),
     (''bne;'', [61, 8421]), (''bnequiv;'', [8801, 8421]), (''bnot;'', [8976]),
     (''bopf;'', [55349, 56659]), (''bot;'', [8869]), (''bottom;'', [8869]),
     (''bowtie;'', [8904]), (''boxDL;'', [9559]), (''boxDR;'', [9556]), (''boxDl;'', [9558]),
     (''boxDr;'', [9555]), (''boxH;'', [9552]), (''boxHD;'', [9574]), (''boxHU;'', [9577]),
     (''boxHd;'', [9572]), (''boxHu;'', [9575]), (''boxUL;'', [9565]), (''boxUR;'', [9562]),
     (''boxUl;'', [9564]), (''boxUr;'', [9561]), (''boxV;'', [9553]), (''boxVH;'', [9580]),
     (''boxVL;'', [9571]), (''boxVR;'', [9568]), (''boxVh;'', [9579]), (''boxVl;'', [9570]),
     (''boxVr;'', [9567]), (''boxbox;'', [10697]), (''boxdL;'', [9557]), (''boxdR;'', [9554]),
     (''boxdl;'', [9488]), (''boxdr;'', [9484]), (''boxh;'', [9472]), (''boxhD;'', [9573]),
     (''boxhU;'', [9576]), (''boxhd;'', [9516]), (''boxhu;'', [9524]), (''boxminus;'', [8863]),
     (''boxplus;'', [8862]), (''boxtimes;'', [8864]), (''boxuL;'', [9563]), (''boxuR;'', [9560]),
     (''boxul;'', [9496]), (''boxur;'', [9492]), (''boxv;'', [9474]), (''boxvH;'', [9578]),
     (''boxvL;'', [9569]), (''boxvR;'', [9566]), (''boxvh;'', [9532]), (''boxvl;'', [9508]),
     (''boxvr;'', [9500]), (''bprime;'', [8245]), (''breve;'', [728]),
     (''bscr;'', [55349, 56503]), (''bsemi;'', [8271]), (''bsim;'', [8765]),
     (''bsime;'', [8909]), (''bsol;'', [92]), (''bsolb;'', [10693]), (''bsolhsub;'', [10184]),
     (''bull;'', [8226]), (''bullet;'', [8226]), (''bump;'', [8782]), (''bumpE;'', [10926]),
     (''bumpe;'', [8783]), (''bumpeq;'', [8783])]"

definition references_c :: "(string \<times> int list) list" where
  "references_c =
   [(''cacute;'', [263]), (''cap;'', [8745]), (''capand;'', [10820]), (''capbrcup;'', [10825]),
     (''capcap;'', [10827]), (''capcup;'', [10823]), (''capdot;'', [10816]),
     (''caps;'', [8745, 65024]), (''caret;'', [8257]), (''caron;'', [711]),
     (''ccaps;'', [10829]), (''ccaron;'', [269]), (''ccirc;'', [265]), (''ccups;'', [10828]),
     (''ccupssm;'', [10832]), (''cdot;'', [267]), (''cemptyv;'', [10674]),
     (''centerdot;'', [183]), (''cfr;'', [55349, 56608]), (''chcy;'', [1095]),
     (''check;'', [10003]), (''checkmark;'', [10003]), (''chi;'', [967]), (''cir;'', [9675]),
     (''cirE;'', [10691]), (''circ;'', [710]), (''circeq;'', [8791]),
     (''circlearrowleft;'', [8634]), (''circlearrowright;'', [8635]), (''circledR;'', [174]),
     (''circledS;'', [9416]), (''circledast;'', [8859]), (''circledcirc;'', [8858]),
     (''circleddash;'', [8861]), (''cire;'', [8791]), (''cirfnint;'', [10768]),
     (''cirmid;'', [10991]), (''cirscir;'', [10690]), (''clubs;'', [9827]),
     (''clubsuit;'', [9827]), (''colon;'', [58]), (''colone;'', [8788]), (''coloneq;'', [8788]),
     (''comma;'', [44]), (''commat;'', [64]), (''comp;'', [8705]), (''compfn;'', [8728]),
     (''complement;'', [8705]), (''complexes;'', [8450]), (''cong;'', [8773]),
     (''congdot;'', [10861]), (''conint;'', [8750]), (''copf;'', [55349, 56660]),
     (''coprod;'', [8720]), (''copysr;'', [8471]), (''crarr;'', [8629]), (''cross;'', [10007]),
     (''cscr;'', [55349, 56504]), (''csub;'', [10959]), (''csube;'', [10961]),
     (''csup;'', [10960]), (''csupe;'', [10962]), (''ctdot;'', [8943]), (''cudarrl;'', [10552]),
     (''cudarrr;'', [10549]), (''cuepr;'', [8926]), (''cuesc;'', [8927]), (''cularr;'', [8630]),
     (''cularrp;'', [10557]), (''cup;'', [8746]), (''cupbrcap;'', [10824]),
     (''cupcap;'', [10822]), (''cupcup;'', [10826]), (''cupdot;'', [8845]),
     (''cupor;'', [10821]), (''cups;'', [8746, 65024]), (''curarr;'', [8631]),
     (''curarrm;'', [10556]), (''curlyeqprec;'', [8926]), (''curlyeqsucc;'', [8927]),
     (''curlyvee;'', [8910]), (''curlywedge;'', [8911]), (''curvearrowleft;'', [8630]),
     (''curvearrowright;'', [8631]), (''cuvee;'', [8910]), (''cuwed;'', [8911]),
     (''cwconint;'', [8754]), (''cwint;'', [8753]), (''cylcty;'', [9005])]"

definition references_d :: "(string \<times> int list) list" where
  "references_d =
   [(''dArr;'', [8659]), (''dHar;'', [10597]), (''dagger;'', [8224]), (''daleth;'', [8504]),
     (''darr;'', [8595]), (''dash;'', [8208]), (''dashv;'', [8867]), (''dbkarow;'', [10511]),
     (''dblac;'', [733]), (''dcaron;'', [271]), (''dcy;'', [1076]), (''dd;'', [8518]),
     (''ddagger;'', [8225]), (''ddarr;'', [8650]), (''ddotseq;'', [10871]), (''delta;'', [948]),
     (''demptyv;'', [10673]), (''dfisht;'', [10623]), (''dfr;'', [55349, 56609]),
     (''dharl;'', [8643]), (''dharr;'', [8642]), (''diam;'', [8900]), (''diamond;'', [8900]),
     (''diamondsuit;'', [9830]), (''diams;'', [9830]), (''die;'', [168]), (''digamma;'', [989]),
     (''disin;'', [8946]), (''div;'', [247]), (''divideontimes;'', [8903]),
     (''divonx;'', [8903]), (''djcy;'', [1106]), (''dlcorn;'', [8990]), (''dlcrop;'', [8973]),
     (''dollar;'', [36]), (''dopf;'', [55349, 56661]), (''dot;'', [729]), (''doteq;'', [8784]),
     (''doteqdot;'', [8785]), (''dotminus;'', [8760]), (''dotplus;'', [8724]),
     (''dotsquare;'', [8865]), (''doublebarwedge;'', [8966]), (''downarrow;'', [8595]),
     (''downdownarrows;'', [8650]), (''downharpoonleft;'', [8643]),
     (''downharpoonright;'', [8642]), (''drbkarow;'', [10512]), (''drcorn;'', [8991]),
     (''drcrop;'', [8972]), (''dscr;'', [55349, 56505]), (''dscy;'', [1109]),
     (''dsol;'', [10742]), (''dstrok;'', [273]), (''dtdot;'', [8945]), (''dtri;'', [9663]),
     (''dtrif;'', [9662]), (''duarr;'', [8693]), (''duhar;'', [10607]), (''dwangle;'', [10662]),
     (''dzcy;'', [1119]), (''dzigrarr;'', [10239])]"

definition references_e :: "(string \<times> int list) list" where
  "references_e =
   [(''eDDot;'', [10871]), (''eDot;'', [8785]), (''easter;'', [10862]), (''ecaron;'', [283]),
     (''ecir;'', [8790]), (''ecolon;'', [8789]), (''ecy;'', [1101]), (''edot;'', [279]),
     (''ee;'', [8519]), (''efDot;'', [8786]), (''efr;'', [55349, 56610]), (''eg;'', [10906]),
     (''egs;'', [10902]), (''egsdot;'', [10904]), (''el;'', [10905]), (''elinters;'', [9191]),
     (''ell;'', [8467]), (''els;'', [10901]), (''elsdot;'', [10903]), (''emacr;'', [275]),
     (''empty;'', [8709]), (''emptyset;'', [8709]), (''emptyv;'', [8709]), (''emsp13;'', [8196]),
     (''emsp14;'', [8197]), (''emsp;'', [8195]), (''eng;'', [331]), (''ensp;'', [8194]),
     (''eogon;'', [281]), (''eopf;'', [55349, 56662]), (''epar;'', [8917]),
     (''eparsl;'', [10723]), (''eplus;'', [10865]), (''epsi;'', [949]), (''epsilon;'', [949]),
     (''epsiv;'', [1013]), (''eqcirc;'', [8790]), (''eqcolon;'', [8789]), (''eqsim;'', [8770]),
     (''eqslantgtr;'', [10902]), (''eqslantless;'', [10901]), (''equals;'', [61]),
     (''equest;'', [8799]), (''equiv;'', [8801]), (''equivDD;'', [10872]),
     (''eqvparsl;'', [10725]), (''erDot;'', [8787]), (''erarr;'', [10609]), (''escr;'', [8495]),
     (''esdot;'', [8784]), (''esim;'', [8770]), (''eta;'', [951]), (''euro;'', [8364]),
     (''excl;'', [33]), (''exist;'', [8707]), (''expectation;'', [8496]),
     (''exponentiale;'', [8519])]"

definition references_f :: "(string \<times> int list) list" where
  "references_f =
   [(''fallingdotseq;'', [8786]), (''fcy;'', [1092]), (''female;'', [9792]),
     (''ffilig;'', [64259]), (''fflig;'', [64256]), (''ffllig;'', [64260]),
     (''ffr;'', [55349, 56611]), (''filig;'', [64257]), (''fjlig;'', [102, 106]),
     (''flat;'', [9837]), (''fllig;'', [64258]), (''fltns;'', [9649]), (''fnof;'', [402]),
     (''fopf;'', [55349, 56663]), (''forall;'', [8704]), (''fork;'', [8916]),
     (''forkv;'', [10969]), (''fpartint;'', [10765]), (''frac13;'', [8531]),
     (''frac15;'', [8533]), (''frac16;'', [8537]), (''frac18;'', [8539]), (''frac23;'', [8532]),
     (''frac25;'', [8534]), (''frac35;'', [8535]), (''frac38;'', [8540]), (''frac45;'', [8536]),
     (''frac56;'', [8538]), (''frac58;'', [8541]), (''frac78;'', [8542]), (''frasl;'', [8260]),
     (''frown;'', [8994]), (''fscr;'', [55349, 56507])]"

definition references_g :: "(string \<times> int list) list" where
  "references_g =
   [(''gE;'', [8807]), (''gEl;'', [10892]), (''gacute;'', [501]), (''gamma;'', [947]),
     (''gammad;'', [989]), (''gap;'', [10886]), (''gbreve;'', [287]), (''gcirc;'', [285]),
     (''gcy;'', [1075]), (''gdot;'', [289]), (''ge;'', [8805]), (''gel;'', [8923]),
     (''geq;'', [8805]), (''geqq;'', [8807]), (''geqslant;'', [10878]), (''ges;'', [10878]),
     (''gescc;'', [10921]), (''gesdot;'', [10880]), (''gesdoto;'', [10882]),
     (''gesdotol;'', [10884]), (''gesl;'', [8923, 65024]), (''gesles;'', [10900]),
     (''gfr;'', [55349, 56612]), (''gg;'', [8811]), (''ggg;'', [8921]), (''gimel;'', [8503]),
     (''gjcy;'', [1107]), (''gl;'', [8823]), (''glE;'', [10898]), (''gla;'', [10917]),
     (''glj;'', [10916]), (''gnE;'', [8809]), (''gnap;'', [10890]), (''gnapprox;'', [10890]),
     (''gne;'', [10888]), (''gneq;'', [10888]), (''gneqq;'', [8809]), (''gnsim;'', [8935]),
     (''gopf;'', [55349, 56664]), (''grave;'', [96]), (''gscr;'', [8458]), (''gsim;'', [8819]),
     (''gsime;'', [10894]), (''gsiml;'', [10896]), (''gtcc;'', [10919]), (''gtcir;'', [10874]),
     (''gtdot;'', [8919]), (''gtlPar;'', [10645]), (''gtquest;'', [10876]),
     (''gtrapprox;'', [10886]), (''gtrarr;'', [10616]), (''gtrdot;'', [8919]),
     (''gtreqless;'', [8923]), (''gtreqqless;'', [10892]), (''gtrless;'', [8823]),
     (''gtrsim;'', [8819]), (''gvertneqq;'', [8809, 65024]), (''gvnE;'', [8809, 65024])]"

definition references_h :: "(string \<times> int list) list" where
  "references_h =
   [(''hArr;'', [8660]), (''hairsp;'', [8202]), (''half;'', [189]), (''hamilt;'', [8459]),
     (''hardcy;'', [1098]), (''harr;'', [8596]), (''harrcir;'', [10568]), (''harrw;'', [8621]),
     (''hbar;'', [8463]), (''hcirc;'', [293]), (''hearts;'', [9829]), (''heartsuit;'', [9829]),
     (''hellip;'', [8230]), (''hercon;'', [8889]), (''hfr;'', [55349, 56613]),
     (''hksearow;'', [10533]), (''hkswarow;'', [10534]), (''hoarr;'', [8703]),
     (''homtht;'', [8763]), (''hookleftarrow;'', [8617]), (''hookrightarrow;'', [8618]),
     (''hopf;'', [55349, 56665]), (''horbar;'', [8213]), (''hscr;'', [55349, 56509]),
     (''hslash;'', [8463]), (''hstrok;'', [295]), (''hybull;'', [8259]), (''hyphen;'', [8208])]"

definition references_i :: "(string \<times> int list) list" where
  "references_i =
   [(''ic;'', [8291]), (''icy;'', [1080]), (''iecy;'', [1077]), (''iff;'', [8660]),
     (''ifr;'', [55349, 56614]), (''ii;'', [8520]), (''iiiint;'', [10764]), (''iiint;'', [8749]),
     (''iinfin;'', [10716]), (''iiota;'', [8489]), (''ijlig;'', [307]), (''imacr;'', [299]),
     (''image;'', [8465]), (''imagline;'', [8464]), (''imagpart;'', [8465]), (''imath;'', [305]),
     (''imof;'', [8887]), (''imped;'', [437]), (''in;'', [8712]), (''incare;'', [8453]),
     (''infin;'', [8734]), (''infintie;'', [10717]), (''inodot;'', [305]), (''int;'', [8747]),
     (''intcal;'', [8890]), (''integers;'', [8484]), (''intercal;'', [8890]),
     (''intlarhk;'', [10775]), (''intprod;'', [10812]), (''iocy;'', [1105]), (''iogon;'', [303]),
     (''iopf;'', [55349, 56666]), (''iota;'', [953]), (''iprod;'', [10812]),
     (''iscr;'', [55349, 56510]), (''isin;'', [8712]), (''isinE;'', [8953]),
     (''isindot;'', [8949]), (''isins;'', [8948]), (''isinsv;'', [8947]), (''isinv;'', [8712]),
     (''it;'', [8290]), (''itilde;'', [297]), (''iukcy;'', [1110])]"

definition references_j :: "(string \<times> int list) list" where
  "references_j =
   [(''jcirc;'', [309]), (''jcy;'', [1081]), (''jfr;'', [55349, 56615]), (''jmath;'', [567]),
     (''jopf;'', [55349, 56667]), (''jscr;'', [55349, 56511]), (''jsercy;'', [1112]),
     (''jukcy;'', [1108])]"

definition references_k :: "(string \<times> int list) list" where
  "references_k =
   [(''kappa;'', [954]), (''kappav;'', [1008]), (''kcedil;'', [311]), (''kcy;'', [1082]),
     (''kfr;'', [55349, 56616]), (''kgreen;'', [312]), (''khcy;'', [1093]), (''kjcy;'', [1116]),
     (''kopf;'', [55349, 56668]), (''kscr;'', [55349, 56512])]"

definition references_l :: "(string \<times> int list) list" where
  "references_l =
   [(''lAarr;'', [8666]), (''lArr;'', [8656]), (''lAtail;'', [10523]), (''lBarr;'', [10510]),
     (''lE;'', [8806]), (''lEg;'', [10891]), (''lHar;'', [10594]), (''lacute;'', [314]),
     (''laemptyv;'', [10676]), (''lagran;'', [8466]), (''lambda;'', [955]), (''lang;'', [10216]),
     (''langd;'', [10641]), (''langle;'', [10216]), (''lap;'', [10885]), (''larr;'', [8592]),
     (''larrb;'', [8676]), (''larrbfs;'', [10527]), (''larrfs;'', [10525]),
     (''larrhk;'', [8617]), (''larrlp;'', [8619]), (''larrpl;'', [10553]),
     (''larrsim;'', [10611]), (''larrtl;'', [8610]), (''lat;'', [10923]), (''latail;'', [10521]),
     (''late;'', [10925]), (''lates;'', [10925, 65024]), (''lbarr;'', [10508]),
     (''lbbrk;'', [10098]), (''lbrace;'', [123]), (''lbrack;'', [91]), (''lbrke;'', [10635]),
     (''lbrksld;'', [10639]), (''lbrkslu;'', [10637]), (''lcaron;'', [318]),
     (''lcedil;'', [316]), (''lceil;'', [8968]), (''lcub;'', [123]), (''lcy;'', [1083]),
     (''ldca;'', [10550]), (''ldquo;'', [8220]), (''ldquor;'', [8222]), (''ldrdhar;'', [10599]),
     (''ldrushar;'', [10571]), (''ldsh;'', [8626]), (''le;'', [8804]), (''leftarrow;'', [8592]),
     (''leftarrowtail;'', [8610]), (''leftharpoondown;'', [8637]), (''leftharpoonup;'', [8636]),
     (''leftleftarrows;'', [8647]), (''leftrightarrow;'', [8596]),
     (''leftrightarrows;'', [8646]), (''leftrightharpoons;'', [8651]),
     (''leftrightsquigarrow;'', [8621]), (''leftthreetimes;'', [8907]), (''leg;'', [8922]),
     (''leq;'', [8804]), (''leqq;'', [8806]), (''leqslant;'', [10877]), (''les;'', [10877]),
     (''lescc;'', [10920]), (''lesdot;'', [10879]), (''lesdoto;'', [10881]),
     (''lesdotor;'', [10883]), (''lesg;'', [8922, 65024]), (''lesges;'', [10899]),
     (''lessapprox;'', [10885]), (''lessdot;'', [8918]), (''lesseqgtr;'', [8922]),
     (''lesseqqgtr;'', [10891]), (''lessgtr;'', [8822]), (''lesssim;'', [8818]),
     (''lfisht;'', [10620]), (''lfloor;'', [8970]), (''lfr;'', [55349, 56617]),
     (''lg;'', [8822]), (''lgE;'', [10897]), (''lhard;'', [8637]), (''lharu;'', [8636]),
     (''lharul;'', [10602]), (''lhblk;'', [9604]), (''ljcy;'', [1113]), (''ll;'', [8810]),
     (''llarr;'', [8647]), (''llcorner;'', [8990]), (''llhard;'', [10603]), (''lltri;'', [9722]),
     (''lmidot;'', [320]), (''lmoust;'', [9136]), (''lmoustache;'', [9136]), (''lnE;'', [8808]),
     (''lnap;'', [10889]), (''lnapprox;'', [10889]), (''lne;'', [10887]), (''lneq;'', [10887]),
     (''lneqq;'', [8808]), (''lnsim;'', [8934]), (''loang;'', [10220]), (''loarr;'', [8701]),
     (''lobrk;'', [10214]), (''longleftarrow;'', [10229]), (''longleftrightarrow;'', [10231]),
     (''longmapsto;'', [10236]), (''longrightarrow;'', [10230]), (''looparrowleft;'', [8619]),
     (''looparrowright;'', [8620]), (''lopar;'', [10629]), (''lopf;'', [55349, 56669]),
     (''loplus;'', [10797]), (''lotimes;'', [10804]), (''lowast;'', [8727]), (''lowbar;'', [95]),
     (''loz;'', [9674]), (''lozenge;'', [9674]), (''lozf;'', [10731]), (''lpar;'', [40]),
     (''lparlt;'', [10643]), (''lrarr;'', [8646]), (''lrcorner;'', [8991]), (''lrhar;'', [8651]),
     (''lrhard;'', [10605]), (''lrm;'', [8206]), (''lrtri;'', [8895]), (''lsaquo;'', [8249]),
     (''lscr;'', [55349, 56513]), (''lsh;'', [8624]), (''lsim;'', [8818]), (''lsime;'', [10893]),
     (''lsimg;'', [10895]), (''lsqb;'', [91]), (''lsquo;'', [8216]), (''lsquor;'', [8218]),
     (''lstrok;'', [322]), (''ltcc;'', [10918]), (''ltcir;'', [10873]), (''ltdot;'', [8918]),
     (''lthree;'', [8907]), (''ltimes;'', [8905]), (''ltlarr;'', [10614]),
     (''ltquest;'', [10875]), (''ltrPar;'', [10646]), (''ltri;'', [9667]), (''ltrie;'', [8884]),
     (''ltrif;'', [9666]), (''lurdshar;'', [10570]), (''luruhar;'', [10598]),
     (''lvertneqq;'', [8808, 65024]), (''lvnE;'', [8808, 65024])]"

definition references_m :: "(string \<times> int list) list" where
  "references_m =
   [(''mDDot;'', [8762]), (''male;'', [9794]), (''malt;'', [10016]), (''maltese;'', [10016]),
     (''map;'', [8614]), (''mapsto;'', [8614]), (''mapstodown;'', [8615]),
     (''mapstoleft;'', [8612]), (''mapstoup;'', [8613]), (''marker;'', [9646]),
     (''mcomma;'', [10793]), (''mcy;'', [1084]), (''mdash;'', [8212]),
     (''measuredangle;'', [8737]), (''mfr;'', [55349, 56618]), (''mho;'', [8487]),
     (''mid;'', [8739]), (''midast;'', [42]), (''midcir;'', [10992]), (''minus;'', [8722]),
     (''minusb;'', [8863]), (''minusd;'', [8760]), (''minusdu;'', [10794]), (''mlcp;'', [10971]),
     (''mldr;'', [8230]), (''mnplus;'', [8723]), (''models;'', [8871]),
     (''mopf;'', [55349, 56670]), (''mp;'', [8723]), (''mscr;'', [55349, 56514]),
     (''mstpos;'', [8766]), (''mu;'', [956]), (''multimap;'', [8888]), (''mumap;'', [8888])]"

definition references_n :: "(string \<times> int list) list" where
  "references_n =
   [(''nGg;'', [8921, 824]), (''nGt;'', [8811, 8402]), (''nGtv;'', [8811, 824]),
     (''nLeftarrow;'', [8653]), (''nLeftrightarrow;'', [8654]), (''nLl;'', [8920, 824]),
     (''nLt;'', [8810, 8402]), (''nLtv;'', [8810, 824]), (''nRightarrow;'', [8655]),
     (''nVDash;'', [8879]), (''nVdash;'', [8878]), (''nabla;'', [8711]), (''nacute;'', [324]),
     (''nang;'', [8736, 8402]), (''nap;'', [8777]), (''napE;'', [10864, 824]),
     (''napid;'', [8779, 824]), (''napos;'', [329]), (''napprox;'', [8777]),
     (''natur;'', [9838]), (''natural;'', [9838]), (''naturals;'', [8469]),
     (''nbump;'', [8782, 824]), (''nbumpe;'', [8783, 824]), (''ncap;'', [10819]),
     (''ncaron;'', [328]), (''ncedil;'', [326]), (''ncong;'', [8775]),
     (''ncongdot;'', [10861, 824]), (''ncup;'', [10818]), (''ncy;'', [1085]),
     (''ndash;'', [8211]), (''ne;'', [8800]), (''neArr;'', [8663]), (''nearhk;'', [10532]),
     (''nearr;'', [8599]), (''nearrow;'', [8599]), (''nedot;'', [8784, 824]),
     (''nequiv;'', [8802]), (''nesear;'', [10536]), (''nesim;'', [8770, 824]),
     (''nexist;'', [8708]), (''nexists;'', [8708]), (''nfr;'', [55349, 56619]),
     (''ngE;'', [8807, 824]), (''nge;'', [8817]), (''ngeq;'', [8817]), (''ngeqq;'', [8807, 824]),
     (''ngeqslant;'', [10878, 824]), (''nges;'', [10878, 824]), (''ngsim;'', [8821]),
     (''ngt;'', [8815]), (''ngtr;'', [8815]), (''nhArr;'', [8654]), (''nharr;'', [8622]),
     (''nhpar;'', [10994]), (''ni;'', [8715]), (''nis;'', [8956]), (''nisd;'', [8954]),
     (''niv;'', [8715]), (''njcy;'', [1114]), (''nlArr;'', [8653]), (''nlE;'', [8806, 824]),
     (''nlarr;'', [8602]), (''nldr;'', [8229]), (''nle;'', [8816]), (''nleftarrow;'', [8602]),
     (''nleftrightarrow;'', [8622]), (''nleq;'', [8816]), (''nleqq;'', [8806, 824]),
     (''nleqslant;'', [10877, 824]), (''nles;'', [10877, 824]), (''nless;'', [8814]),
     (''nlsim;'', [8820]), (''nlt;'', [8814]), (''nltri;'', [8938]), (''nltrie;'', [8940]),
     (''nmid;'', [8740]), (''nopf;'', [55349, 56671]), (''notin;'', [8713]),
     (''notinE;'', [8953, 824]), (''notindot;'', [8949, 824]), (''notinva;'', [8713]),
     (''notinvb;'', [8951]), (''notinvc;'', [8950]), (''notni;'', [8716]),
     (''notniva;'', [8716]), (''notnivb;'', [8958]), (''notnivc;'', [8957]), (''npar;'', [8742]),
     (''nparallel;'', [8742]), (''nparsl;'', [11005, 8421]), (''npart;'', [8706, 824]),
     (''npolint;'', [10772]), (''npr;'', [8832]), (''nprcue;'', [8928]),
     (''npre;'', [10927, 824]), (''nprec;'', [8832]), (''npreceq;'', [10927, 824]),
     (''nrArr;'', [8655]), (''nrarr;'', [8603]), (''nrarrc;'', [10547, 824]),
     (''nrarrw;'', [8605, 824]), (''nrightarrow;'', [8603]), (''nrtri;'', [8939]),
     (''nrtrie;'', [8941]), (''nsc;'', [8833]), (''nsccue;'', [8929]), (''nsce;'', [10928, 824]),
     (''nscr;'', [55349, 56515]), (''nshortmid;'', [8740]), (''nshortparallel;'', [8742]),
     (''nsim;'', [8769]), (''nsime;'', [8772]), (''nsimeq;'', [8772]), (''nsmid;'', [8740]),
     (''nspar;'', [8742]), (''nsqsube;'', [8930]), (''nsqsupe;'', [8931]), (''nsub;'', [8836]),
     (''nsubE;'', [10949, 824]), (''nsube;'', [8840]), (''nsubset;'', [8834, 8402]),
     (''nsubseteq;'', [8840]), (''nsubseteqq;'', [10949, 824]), (''nsucc;'', [8833]),
     (''nsucceq;'', [10928, 824]), (''nsup;'', [8837]), (''nsupE;'', [10950, 824]),
     (''nsupe;'', [8841]), (''nsupset;'', [8835, 8402]), (''nsupseteq;'', [8841]),
     (''nsupseteqq;'', [10950, 824]), (''ntgl;'', [8825]), (''ntlg;'', [8824]),
     (''ntriangleleft;'', [8938]), (''ntrianglelefteq;'', [8940]), (''ntriangleright;'', [8939]),
     (''ntrianglerighteq;'', [8941]), (''nu;'', [957]), (''num;'', [35]), (''numero;'', [8470]),
     (''numsp;'', [8199]), (''nvDash;'', [8877]), (''nvHarr;'', [10500]),
     (''nvap;'', [8781, 8402]), (''nvdash;'', [8876]), (''nvge;'', [8805, 8402]),
     (''nvgt;'', [62, 8402]), (''nvinfin;'', [10718]), (''nvlArr;'', [10498]),
     (''nvle;'', [8804, 8402]), (''nvlt;'', [60, 8402]), (''nvltrie;'', [8884, 8402]),
     (''nvrArr;'', [10499]), (''nvrtrie;'', [8885, 8402]), (''nvsim;'', [8764, 8402]),
     (''nwArr;'', [8662]), (''nwarhk;'', [10531]), (''nwarr;'', [8598]), (''nwarrow;'', [8598]),
     (''nwnear;'', [10535])]"

definition references_o :: "(string \<times> int list) list" where
  "references_o =
   [(''oS;'', [9416]), (''oast;'', [8859]), (''ocir;'', [8858]), (''ocy;'', [1086]),
     (''odash;'', [8861]), (''odblac;'', [337]), (''odiv;'', [10808]), (''odot;'', [8857]),
     (''odsold;'', [10684]), (''oelig;'', [339]), (''ofcir;'', [10687]),
     (''ofr;'', [55349, 56620]), (''ogon;'', [731]), (''ogt;'', [10689]), (''ohbar;'', [10677]),
     (''ohm;'', [937]), (''oint;'', [8750]), (''olarr;'', [8634]), (''olcir;'', [10686]),
     (''olcross;'', [10683]), (''oline;'', [8254]), (''olt;'', [10688]), (''omacr;'', [333]),
     (''omega;'', [969]), (''omicron;'', [959]), (''omid;'', [10678]), (''ominus;'', [8854]),
     (''oopf;'', [55349, 56672]), (''opar;'', [10679]), (''operp;'', [10681]),
     (''oplus;'', [8853]), (''or;'', [8744]), (''orarr;'', [8635]), (''ord;'', [10845]),
     (''order;'', [8500]), (''orderof;'', [8500]), (''origof;'', [8886]), (''oror;'', [10838]),
     (''orslope;'', [10839]), (''orv;'', [10843]), (''oscr;'', [8500]), (''osol;'', [8856]),
     (''otimes;'', [8855]), (''otimesas;'', [10806]), (''ovbar;'', [9021])]"

definition references_p :: "(string \<times> int list) list" where
  "references_p =
   [(''par;'', [8741]), (''parallel;'', [8741]), (''parsim;'', [10995]), (''parsl;'', [11005]),
     (''part;'', [8706]), (''pcy;'', [1087]), (''percnt;'', [37]), (''period;'', [46]),
     (''permil;'', [8240]), (''perp;'', [8869]), (''pertenk;'', [8241]),
     (''pfr;'', [55349, 56621]), (''phi;'', [966]), (''phiv;'', [981]), (''phmmat;'', [8499]),
     (''phone;'', [9742]), (''pi;'', [960]), (''pitchfork;'', [8916]), (''piv;'', [982]),
     (''planck;'', [8463]), (''planckh;'', [8462]), (''plankv;'', [8463]), (''plus;'', [43]),
     (''plusacir;'', [10787]), (''plusb;'', [8862]), (''pluscir;'', [10786]),
     (''plusdo;'', [8724]), (''plusdu;'', [10789]), (''pluse;'', [10866]),
     (''plussim;'', [10790]), (''plustwo;'', [10791]), (''pm;'', [177]),
     (''pointint;'', [10773]), (''popf;'', [55349, 56673]), (''pr;'', [8826]),
     (''prE;'', [10931]), (''prap;'', [10935]), (''prcue;'', [8828]), (''pre;'', [10927]),
     (''prec;'', [8826]), (''precapprox;'', [10935]), (''preccurlyeq;'', [8828]),
     (''preceq;'', [10927]), (''precnapprox;'', [10937]), (''precneqq;'', [10933]),
     (''precnsim;'', [8936]), (''precsim;'', [8830]), (''prime;'', [8242]),
     (''primes;'', [8473]), (''prnE;'', [10933]), (''prnap;'', [10937]), (''prnsim;'', [8936]),
     (''prod;'', [8719]), (''profalar;'', [9006]), (''profline;'', [8978]),
     (''profsurf;'', [8979]), (''prop;'', [8733]), (''propto;'', [8733]), (''prsim;'', [8830]),
     (''prurel;'', [8880]), (''pscr;'', [55349, 56517]), (''psi;'', [968]), (''puncsp;'', [8200])]"

definition references_q :: "(string \<times> int list) list" where
  "references_q =
   [(''qfr;'', [55349, 56622]), (''qint;'', [10764]), (''qopf;'', [55349, 56674]),
     (''qprime;'', [8279]), (''qscr;'', [55349, 56518]), (''quaternions;'', [8461]),
     (''quatint;'', [10774]), (''quest;'', [63]), (''questeq;'', [8799])]"

definition references_r :: "(string \<times> int list) list" where
  "references_r =
   [(''rAarr;'', [8667]), (''rArr;'', [8658]), (''rAtail;'', [10524]), (''rBarr;'', [10511]),
     (''rHar;'', [10596]), (''race;'', [8765, 817]), (''racute;'', [341]), (''radic;'', [8730]),
     (''raemptyv;'', [10675]), (''rang;'', [10217]), (''rangd;'', [10642]),
     (''range;'', [10661]), (''rangle;'', [10217]), (''rarr;'', [8594]), (''rarrap;'', [10613]),
     (''rarrb;'', [8677]), (''rarrbfs;'', [10528]), (''rarrc;'', [10547]),
     (''rarrfs;'', [10526]), (''rarrhk;'', [8618]), (''rarrlp;'', [8620]),
     (''rarrpl;'', [10565]), (''rarrsim;'', [10612]), (''rarrtl;'', [8611]),
     (''rarrw;'', [8605]), (''ratail;'', [10522]), (''ratio;'', [8758]),
     (''rationals;'', [8474]), (''rbarr;'', [10509]), (''rbbrk;'', [10099]),
     (''rbrace;'', [125]), (''rbrack;'', [93]), (''rbrke;'', [10636]), (''rbrksld;'', [10638]),
     (''rbrkslu;'', [10640]), (''rcaron;'', [345]), (''rcedil;'', [343]), (''rceil;'', [8969]),
     (''rcub;'', [125]), (''rcy;'', [1088]), (''rdca;'', [10551]), (''rdldhar;'', [10601]),
     (''rdquo;'', [8221]), (''rdquor;'', [8221]), (''rdsh;'', [8627]), (''real;'', [8476]),
     (''realine;'', [8475]), (''realpart;'', [8476]), (''reals;'', [8477]), (''rect;'', [9645]),
     (''rfisht;'', [10621]), (''rfloor;'', [8971]), (''rfr;'', [55349, 56623]),
     (''rhard;'', [8641]), (''rharu;'', [8640]), (''rharul;'', [10604]), (''rho;'', [961]),
     (''rhov;'', [1009]), (''rightarrow;'', [8594]), (''rightarrowtail;'', [8611]),
     (''rightharpoondown;'', [8641]), (''rightharpoonup;'', [8640]),
     (''rightleftarrows;'', [8644]), (''rightleftharpoons;'', [8652]),
     (''rightrightarrows;'', [8649]), (''rightsquigarrow;'', [8605]),
     (''rightthreetimes;'', [8908]), (''ring;'', [730]), (''risingdotseq;'', [8787]),
     (''rlarr;'', [8644]), (''rlhar;'', [8652]), (''rlm;'', [8207]), (''rmoust;'', [9137]),
     (''rmoustache;'', [9137]), (''rnmid;'', [10990]), (''roang;'', [10221]),
     (''roarr;'', [8702]), (''robrk;'', [10215]), (''ropar;'', [10630]),
     (''ropf;'', [55349, 56675]), (''roplus;'', [10798]), (''rotimes;'', [10805]),
     (''rpar;'', [41]), (''rpargt;'', [10644]), (''rppolint;'', [10770]), (''rrarr;'', [8649]),
     (''rsaquo;'', [8250]), (''rscr;'', [55349, 56519]), (''rsh;'', [8625]), (''rsqb;'', [93]),
     (''rsquo;'', [8217]), (''rsquor;'', [8217]), (''rthree;'', [8908]), (''rtimes;'', [8906]),
     (''rtri;'', [9657]), (''rtrie;'', [8885]), (''rtrif;'', [9656]), (''rtriltri;'', [10702]),
     (''ruluhar;'', [10600]), (''rx;'', [8478])]"

definition references_s :: "(string \<times> int list) list" where
  "references_s =
   [(''sacute;'', [347]), (''sbquo;'', [8218]), (''sc;'', [8827]), (''scE;'', [10932]),
     (''scap;'', [10936]), (''scaron;'', [353]), (''sccue;'', [8829]), (''sce;'', [10928]),
     (''scedil;'', [351]), (''scirc;'', [349]), (''scnE;'', [10934]), (''scnap;'', [10938]),
     (''scnsim;'', [8937]), (''scpolint;'', [10771]), (''scsim;'', [8831]), (''scy;'', [1089]),
     (''sdot;'', [8901]), (''sdotb;'', [8865]), (''sdote;'', [10854]), (''seArr;'', [8664]),
     (''searhk;'', [10533]), (''searr;'', [8600]), (''searrow;'', [8600]), (''semi;'', [59]),
     (''seswar;'', [10537]), (''setminus;'', [8726]), (''setmn;'', [8726]), (''sext;'', [10038]),
     (''sfr;'', [55349, 56624]), (''sfrown;'', [8994]), (''sharp;'', [9839]),
     (''shchcy;'', [1097]), (''shcy;'', [1096]), (''shortmid;'', [8739]),
     (''shortparallel;'', [8741]), (''sigma;'', [963]), (''sigmaf;'', [962]),
     (''sigmav;'', [962]), (''sim;'', [8764]), (''simdot;'', [10858]), (''sime;'', [8771]),
     (''simeq;'', [8771]), (''simg;'', [10910]), (''simgE;'', [10912]), (''siml;'', [10909]),
     (''simlE;'', [10911]), (''simne;'', [8774]), (''simplus;'', [10788]),
     (''simrarr;'', [10610]), (''slarr;'', [8592]), (''smallsetminus;'', [8726]),
     (''smashp;'', [10803]), (''smeparsl;'', [10724]), (''smid;'', [8739]), (''smile;'', [8995]),
     (''smt;'', [10922]), (''smte;'', [10924]), (''smtes;'', [10924, 65024]),
     (''softcy;'', [1100]), (''sol;'', [47]), (''solb;'', [10692]), (''solbar;'', [9023]),
     (''sopf;'', [55349, 56676]), (''spades;'', [9824]), (''spadesuit;'', [9824]),
     (''spar;'', [8741]), (''sqcap;'', [8851]), (''sqcaps;'', [8851, 65024]),
     (''sqcup;'', [8852]), (''sqcups;'', [8852, 65024]), (''sqsub;'', [8847]),
     (''sqsube;'', [8849]), (''sqsubset;'', [8847]), (''sqsubseteq;'', [8849]),
     (''sqsup;'', [8848]), (''sqsupe;'', [8850]), (''sqsupset;'', [8848]),
     (''sqsupseteq;'', [8850]), (''squ;'', [9633]), (''square;'', [9633]), (''squarf;'', [9642]),
     (''squf;'', [9642]), (''srarr;'', [8594]), (''sscr;'', [55349, 56520]),
     (''ssetmn;'', [8726]), (''ssmile;'', [8995]), (''sstarf;'', [8902]), (''star;'', [9734]),
     (''starf;'', [9733]), (''straightepsilon;'', [1013]), (''straightphi;'', [981]),
     (''strns;'', [175]), (''sub;'', [8834]), (''subE;'', [10949]), (''subdot;'', [10941]),
     (''sube;'', [8838]), (''subedot;'', [10947]), (''submult;'', [10945]),
     (''subnE;'', [10955]), (''subne;'', [8842]), (''subplus;'', [10943]),
     (''subrarr;'', [10617]), (''subset;'', [8834]), (''subseteq;'', [8838]),
     (''subseteqq;'', [10949]), (''subsetneq;'', [8842]), (''subsetneqq;'', [10955]),
     (''subsim;'', [10951]), (''subsub;'', [10965]), (''subsup;'', [10963]), (''succ;'', [8827]),
     (''succapprox;'', [10936]), (''succcurlyeq;'', [8829]), (''succeq;'', [10928]),
     (''succnapprox;'', [10938]), (''succneqq;'', [10934]), (''succnsim;'', [8937]),
     (''succsim;'', [8831]), (''sum;'', [8721]), (''sung;'', [9834]), (''sup;'', [8835]),
     (''supE;'', [10950]), (''supdot;'', [10942]), (''supdsub;'', [10968]), (''supe;'', [8839]),
     (''supedot;'', [10948]), (''suphsol;'', [10185]), (''suphsub;'', [10967]),
     (''suplarr;'', [10619]), (''supmult;'', [10946]), (''supnE;'', [10956]),
     (''supne;'', [8843]), (''supplus;'', [10944]), (''supset;'', [8835]),
     (''supseteq;'', [8839]), (''supseteqq;'', [10950]), (''supsetneq;'', [8843]),
     (''supsetneqq;'', [10956]), (''supsim;'', [10952]), (''supsub;'', [10964]),
     (''supsup;'', [10966]), (''swArr;'', [8665]), (''swarhk;'', [10534]), (''swarr;'', [8601]),
     (''swarrow;'', [8601]), (''swnwar;'', [10538])]"

definition references_t :: "(string \<times> int list) list" where
  "references_t =
   [(''target;'', [8982]), (''tau;'', [964]), (''tbrk;'', [9140]), (''tcaron;'', [357]),
     (''tcedil;'', [355]), (''tcy;'', [1090]), (''tdot;'', [8411]), (''telrec;'', [8981]),
     (''tfr;'', [55349, 56625]), (''there4;'', [8756]), (''therefore;'', [8756]),
     (''theta;'', [952]), (''thetasym;'', [977]), (''thetav;'', [977]),
     (''thickapprox;'', [8776]), (''thicksim;'', [8764]), (''thinsp;'', [8201]),
     (''thkap;'', [8776]), (''thksim;'', [8764]), (''tilde;'', [732]), (''timesb;'', [8864]),
     (''timesbar;'', [10801]), (''timesd;'', [10800]), (''tint;'', [8749]), (''toea;'', [10536]),
     (''top;'', [8868]), (''topbot;'', [9014]), (''topcir;'', [10993]),
     (''topf;'', [55349, 56677]), (''topfork;'', [10970]), (''tosa;'', [10537]),
     (''tprime;'', [8244]), (''trade;'', [8482]), (''triangle;'', [9653]),
     (''triangledown;'', [9663]), (''triangleleft;'', [9667]), (''trianglelefteq;'', [8884]),
     (''triangleq;'', [8796]), (''triangleright;'', [9657]), (''trianglerighteq;'', [8885]),
     (''tridot;'', [9708]), (''trie;'', [8796]), (''triminus;'', [10810]),
     (''triplus;'', [10809]), (''trisb;'', [10701]), (''tritime;'', [10811]),
     (''trpezium;'', [9186]), (''tscr;'', [55349, 56521]), (''tscy;'', [1094]),
     (''tshcy;'', [1115]), (''tstrok;'', [359]), (''twixt;'', [8812]),
     (''twoheadleftarrow;'', [8606]), (''twoheadrightarrow;'', [8608])]"

definition references_u :: "(string \<times> int list) list" where
  "references_u =
   [(''uArr;'', [8657]), (''uHar;'', [10595]), (''uarr;'', [8593]), (''ubrcy;'', [1118]),
     (''ubreve;'', [365]), (''ucy;'', [1091]), (''udarr;'', [8645]), (''udblac;'', [369]),
     (''udhar;'', [10606]), (''ufisht;'', [10622]), (''ufr;'', [55349, 56626]),
     (''uharl;'', [8639]), (''uharr;'', [8638]), (''uhblk;'', [9600]), (''ulcorn;'', [8988]),
     (''ulcorner;'', [8988]), (''ulcrop;'', [8975]), (''ultri;'', [9720]), (''umacr;'', [363]),
     (''uogon;'', [371]), (''uopf;'', [55349, 56678]), (''uparrow;'', [8593]),
     (''updownarrow;'', [8597]), (''upharpoonleft;'', [8639]), (''upharpoonright;'', [8638]),
     (''uplus;'', [8846]), (''upsi;'', [965]), (''upsih;'', [978]), (''upsilon;'', [965]),
     (''upuparrows;'', [8648]), (''urcorn;'', [8989]), (''urcorner;'', [8989]),
     (''urcrop;'', [8974]), (''uring;'', [367]), (''urtri;'', [9721]),
     (''uscr;'', [55349, 56522]), (''utdot;'', [8944]), (''utilde;'', [361]),
     (''utri;'', [9653]), (''utrif;'', [9652]), (''uuarr;'', [8648]), (''uwangle;'', [10663])]"

definition references_v :: "(string \<times> int list) list" where
  "references_v =
   [(''vArr;'', [8661]), (''vBar;'', [10984]), (''vBarv;'', [10985]), (''vDash;'', [8872]),
     (''vangrt;'', [10652]), (''varepsilon;'', [1013]), (''varkappa;'', [1008]),
     (''varnothing;'', [8709]), (''varphi;'', [981]), (''varpi;'', [982]),
     (''varpropto;'', [8733]), (''varr;'', [8597]), (''varrho;'', [1009]),
     (''varsigma;'', [962]), (''varsubsetneq;'', [8842, 65024]),
     (''varsubsetneqq;'', [10955, 65024]), (''varsupsetneq;'', [8843, 65024]),
     (''varsupsetneqq;'', [10956, 65024]), (''vartheta;'', [977]),
     (''vartriangleleft;'', [8882]), (''vartriangleright;'', [8883]), (''vcy;'', [1074]),
     (''vdash;'', [8866]), (''vee;'', [8744]), (''veebar;'', [8891]), (''veeeq;'', [8794]),
     (''vellip;'', [8942]), (''verbar;'', [124]), (''vert;'', [124]), (''vfr;'', [55349, 56627]),
     (''vltri;'', [8882]), (''vnsub;'', [8834, 8402]), (''vnsup;'', [8835, 8402]),
     (''vopf;'', [55349, 56679]), (''vprop;'', [8733]), (''vrtri;'', [8883]),
     (''vscr;'', [55349, 56523]), (''vsubnE;'', [10955, 65024]), (''vsubne;'', [8842, 65024]),
     (''vsupnE;'', [10956, 65024]), (''vsupne;'', [8843, 65024]), (''vzigzag;'', [10650])]"

definition references_w :: "(string \<times> int list) list" where
  "references_w =
   [(''wcirc;'', [373]), (''wedbar;'', [10847]), (''wedge;'', [8743]), (''wedgeq;'', [8793]),
     (''weierp;'', [8472]), (''wfr;'', [55349, 56628]), (''wopf;'', [55349, 56680]),
     (''wp;'', [8472]), (''wr;'', [8768]), (''wreath;'', [8768]), (''wscr;'', [55349, 56524])]"

definition references_x :: "(string \<times> int list) list" where
  "references_x =
   [(''xcap;'', [8898]), (''xcirc;'', [9711]), (''xcup;'', [8899]), (''xdtri;'', [9661]),
     (''xfr;'', [55349, 56629]), (''xhArr;'', [10234]), (''xharr;'', [10231]), (''xi;'', [958]),
     (''xlArr;'', [10232]), (''xlarr;'', [10229]), (''xmap;'', [10236]), (''xnis;'', [8955]),
     (''xodot;'', [10752]), (''xopf;'', [55349, 56681]), (''xoplus;'', [10753]),
     (''xotime;'', [10754]), (''xrArr;'', [10233]), (''xrarr;'', [10230]),
     (''xscr;'', [55349, 56525]), (''xsqcup;'', [10758]), (''xuplus;'', [10756]),
     (''xutri;'', [9651]), (''xvee;'', [8897]), (''xwedge;'', [8896])]"

definition references_y :: "(string \<times> int list) list" where
  "references_y =
   [(''yacy;'', [1103]), (''ycirc;'', [375]), (''ycy;'', [1099]), (''yfr;'', [55349, 56630]),
     (''yicy;'', [1111]), (''yopf;'', [55349, 56682]), (''yscr;'', [55349, 56526]),
     (''yucy;'', [1102])]"

definition references_z :: "(string \<times> int list) list" where
  "references_z =
   [(''zacute;'', [378]), (''zcaron;'', [382]), (''zcy;'', [1079]), (''zdot;'', [380]),
     (''zeetrf;'', [8488]), (''zeta;'', [950]), (''zfr;'', [55349, 56631]), (''zhcy;'', [1078]),
     (''zigrarr;'', [8669]), (''zopf;'', [55349, 56683]), (''zscr;'', [55349, 56527]),
     (''zwj;'', [8205]), (''zwnj;'', [8204])]"

text \<open>The names that begin with a given letter.\<close>

definition otherReferences :: "char \<Rightarrow> (string \<times> int list) list" where
  "otherReferences c =
     (if c = CHR ''A'' then references_A else if c = CHR ''B'' then references_B else
      if c = CHR ''C'' then references_C else if c = CHR ''D'' then references_D else
      if c = CHR ''E'' then references_E else if c = CHR ''F'' then references_F else
      if c = CHR ''G'' then references_G else if c = CHR ''H'' then references_H else
      if c = CHR ''I'' then references_I else if c = CHR ''J'' then references_J else
      if c = CHR ''K'' then references_K else if c = CHR ''L'' then references_L else
      if c = CHR ''M'' then references_M else if c = CHR ''N'' then references_N else
      if c = CHR ''O'' then references_O else if c = CHR ''P'' then references_P else
      if c = CHR ''Q'' then references_Q else if c = CHR ''R'' then references_R else
      if c = CHR ''S'' then references_S else if c = CHR ''T'' then references_T else
      if c = CHR ''U'' then references_U else if c = CHR ''V'' then references_V else
      if c = CHR ''W'' then references_W else if c = CHR ''X'' then references_X else
      if c = CHR ''Y'' then references_Y else if c = CHR ''Z'' then references_Z else
      if c = CHR ''a'' then references_a else if c = CHR ''b'' then references_b else
      if c = CHR ''c'' then references_c else if c = CHR ''d'' then references_d else
      if c = CHR ''e'' then references_e else if c = CHR ''f'' then references_f else
      if c = CHR ''g'' then references_g else if c = CHR ''h'' then references_h else
      if c = CHR ''i'' then references_i else if c = CHR ''j'' then references_j else
      if c = CHR ''k'' then references_k else if c = CHR ''l'' then references_l else
      if c = CHR ''m'' then references_m else if c = CHR ''n'' then references_n else
      if c = CHR ''o'' then references_o else if c = CHR ''p'' then references_p else
      if c = CHR ''q'' then references_q else if c = CHR ''r'' then references_r else
      if c = CHR ''s'' then references_s else if c = CHR ''t'' then references_t else
      if c = CHR ''u'' then references_u else if c = CHR ''v'' then references_v else
      if c = CHR ''w'' then references_w else if c = CHR ''x'' then references_x else
      if c = CHR ''y'' then references_y else if c = CHR ''z'' then references_z else [])"

definition asciiString :: "jsstring \<Rightarrow> string" where
  "asciiString s = map (\<lambda>c. char_of (unat c)) s"

text \<open>
  The longest name without a semicolon among the first \<open>n\<close> code units of \<open>r\<close>: how
  many code units it takes, and what it stands for.
\<close>

fun longestReference :: "nat \<Rightarrow> jsstring \<Rightarrow> (nat \<times> jsstring) option" where
  "longestReference 0 r = None"
| "longestReference (Suc n) r =
     (case map_of legacyReferences (asciiString (take (Suc n) r)) of
        Some units \<Rightarrow> Some (Suc n, map of_int units)
      | None \<Rightarrow> longestReference n r)"

text \<open>
  The text after \<open>&\<close>: a name is made of letters and digits and, but for those of
  \<open>legacyReferences\<close>, ends in a semicolon; with its semicolon no name is longer than 32.
  The reference is the longest name that the text begins with.
\<close>

definition namedReference :: "jsstring \<Rightarrow> (nat \<times> jsstring) option" where
  "namedReference cs =
     (let name = takeWhile isAlnum cs
      in if name \<noteq> [] \<and> length name < 32 \<and> take 1 (dropWhile isAlnum cs) = [0x3B] then
           (case map_of legacyReferences (asciiString (name @ [0x3B])) of
              Some units \<Rightarrow> Some (Suc (length name), map of_int units)
            | None \<Rightarrow>
                (case map_of (otherReferences (hd (asciiString name))) (asciiString (name @ [0x3B])) of
                   Some units \<Rightarrow> Some (Suc (length name), map of_int units)
                 | None \<Rightarrow> longestReference (length name) name))
         else longestReference (min 32 (length name)) name)"

definition isDigit :: "code_unit \<Rightarrow> bool" where
  "isDigit c \<longleftrightarrow> 0x30 \<le> c \<and> c \<le> 0x39"

definition digitsValue :: "jsstring \<Rightarrow> nat" where
  "digitsValue ds = foldl (\<lambda>n c. 10 * n + (unat c - 48)) 0 ds"

definition isHexDigit :: "code_unit \<Rightarrow> bool" where
  "isHexDigit c \<longleftrightarrow> (0x30 \<le> c \<and> c \<le> 0x39) \<or> (0x41 \<le> c \<and> c \<le> 0x46) \<or> (0x61 \<le> c \<and> c \<le> 0x66)"

definition hexDigitValue :: "code_unit \<Rightarrow> int" where
  "hexDigitValue c =
     (if c \<le> 0x39 then uint c - 48 else if c \<le> 0x46 then uint c - 55 else uint c - 87)"

text \<open>
  The code point of a numeric reference: zero, surrogates and numbers beyond U+10FFFF
  become U+FFFD, and the numbers 0x80 to 0x9F are read as Windows-1252.
\<close>

definition windows1252 :: "(int \<times> int) list" where
  "windows1252 =
     [(0x80, 0x20AC), (0x82, 0x201A), (0x83, 0x0192), (0x84, 0x201E), (0x85, 0x2026),
      (0x86, 0x2020), (0x87, 0x2021), (0x88, 0x02C6), (0x89, 0x2030), (0x8A, 0x0160),
      (0x8B, 0x2039), (0x8C, 0x0152), (0x8E, 0x017D), (0x91, 0x2018), (0x92, 0x2019),
      (0x93, 0x201C), (0x94, 0x201D), (0x95, 0x2022), (0x96, 0x2013), (0x97, 0x2014),
      (0x98, 0x02DC), (0x99, 0x2122), (0x9A, 0x0161), (0x9B, 0x203A), (0x9C, 0x0153),
      (0x9E, 0x017E), (0x9F, 0x0178)]"

definition referencedCodePoint :: "int \<Rightarrow> int" where
  "referencedCodePoint n =
     (if n = 0 \<or> 0x10FFFF < n \<or> (0xD800 \<le> n \<and> n \<le> 0xDFFF) then 0xFFFD
      else case map_of windows1252 n of Some m \<Rightarrow> m | None \<Rightarrow> n)"

definition utf16 :: "int \<Rightarrow> jsstring" where
  "utf16 n =
     (if n < 0x10000 then [of_int n]
      else [of_int (0xD800 + (n - 0x10000) div 0x400), of_int (0xDC00 + (n - 0x10000) mod 0x400)])"

text \<open>
  The text after \<open>&#\<close>: without a digit there is no reference; a semicolon after the
  digits belongs to the reference.
\<close>

definition numericReference :: "jsstring \<Rightarrow> (nat \<times> jsstring) option" where
  "numericReference cs =
     (let hex = (take 1 cs = [0x78] \<or> take 1 cs = [0x58]);
          ds = (if hex then takeWhile isHexDigit (drop 1 cs) else takeWhile isDigit cs);
          n = (if hex then foldl (\<lambda>n c. 16 * n + hexDigitValue c) 0 ds
               else foldl (\<lambda>n c. 10 * n + (uint c - 48)) 0 ds);
          len = (if hex then 1 else 0) + length ds
      in if ds = [] then None
         else Some (1 + len + (if take 1 (drop len cs) = [0x3B] then 1 else 0),
                    utf16 (referencedCodePoint n)))"

text \<open>
  Where a comment ends: the number of code units up to and including its end, counted
  from the text after \<open><!--\<close>, if it ends.
\<close>

fun commentEnd :: "jsstring \<Rightarrow> nat option" where
  "commentEnd [] = None"
| "commentEnd (c # cs) =
     (if take 3 (c # cs) = js ''-->'' then Some 3
      else if take 4 (c # cs) = js ''--!>'' then Some 4
      else map_option Suc (commentEnd cs))"

definition commentStart :: "jsstring \<Rightarrow> nat option" where
  "commentStart cs =
     (if take 1 cs = js ''>'' then Some 1
      else if take 2 cs = js ''->'' then Some 2
      else commentEnd cs)"

text \<open>The number of code units up to and including the next \<open>>\<close>.\<close>

fun greaterThan :: "jsstring \<Rightarrow> nat option" where
  "greaterThan [] = None"
| "greaterThan (c # cs) = (if c = 0x3E then Some 1 else map_option Suc (greaterThan cs))"

definition emit :: "jsstring \<Rightarrow> (jsstring \<times> bool) option \<Rightarrow> (jsstring \<times> bool) option" where
  "emit units r = map_option (\<lambda>(data, closed). (units @ data, closed)) r"

text \<open>
  The character data of the span, and whether the markup after the text (the closing of
  the span and the two buttons) is still read as markup.
\<close>

fun characterData :: "jsstring \<Rightarrow> (jsstring \<times> bool) option" where
  "characterData [] = Some ([], True)"
| "characterData (c # cs) =
     (if c = 0x26 then
        (case (if take 1 cs = [0x23] then numericReference (drop 1 cs) else namedReference cs) of
           Some (n, units) \<Rightarrow> emit units (characterData (drop n cs))
         | None \<Rightarrow> emit [c] (characterData cs))
      else if c = 0x3C then
        (if take 3 cs = js ''!--'' then
           (case commentStart (drop 3 cs) of
              None \<Rightarrow> Some ([], False)
            | Some n \<Rightarrow> characterData (drop (3 + n) cs))
         else if take 1 cs = js ''!'' \<or> take 1 cs = js ''?'' then
           (case greaterThan cs of
              None \<Rightarrow> None
            | Some n \<Rightarrow> characterData (drop n cs))
         else if take 1 cs = js ''/'' then
           (if take 1 (drop 1 cs) = js ''>'' then characterData (drop 2 cs)
            else if take 1 (drop 1 cs) \<noteq> [] \<and> isAlpha (hd (drop 1 cs)) then None
            else (case greaterThan cs of
                    None \<Rightarrow> None
                  | Some n \<Rightarrow> characterData (drop n cs)))
         else if take 1 cs \<noteq> [] \<and> isAlpha (hd cs) then None
         else emit [c] (characterData cs))
      else emit [c] (characterData cs))"

text \<open>
  Rendering: the characters that are shown as they are, and the collapsing of white
  space.
\<close>

definition isTextChar :: "code_unit \<Rightarrow> bool" where
  "isTextChar c \<longleftrightarrow>
     0x20 < c \<and> \<not> (0x7F \<le> c \<and> c \<le> 0x9F) \<and> \<not> isLeadingSurrogate c \<and> \<not> isTrailingSurrogate c \<and>
     c \<noteq> 0x2028 \<and> c \<noteq> 0x2029 \<and> c \<noteq> 0xFFFE \<and> c \<noteq> 0xFFFF"

definition isCollapsible :: "code_unit \<Rightarrow> bool" where
  "isCollapsible c \<longleftrightarrow> c = 0x20 \<or> c = 0x09"

fun rendered :: "jsstring \<Rightarrow> bool" where
  "rendered [] \<longleftrightarrow> True"
| "rendered [c] \<longleftrightarrow> isTextChar c \<or> isCollapsible c"
| "rendered (c # d # cs) \<longleftrightarrow>
     (if isLeadingSurrogate c then isTrailingSurrogate d \<and> rendered cs
      else (isTextChar c \<or> isCollapsible c) \<and> rendered (d # cs))"

fun collapse :: "jsstring \<Rightarrow> jsstring" where
  "collapse [] = []"
| "collapse [c] = [if isCollapsible c then 0x20 else c]"
| "collapse (c # d # cs) =
     (if isCollapsible c then (if isCollapsible d then collapse (d # cs) else 0x20 # collapse (d # cs))
      else c # collapse (d # cs))"

definition innerText :: "jsstring \<Rightarrow> jsstring option" where
  "innerText data =
     (if rendered data \<and> (data = [] \<or> \<not> isCollapsible (hd data) \<and> \<not> isCollapsible (last data))
      then Some (collapse data) else None)"

text \<open>
  The item that the assignment to \<open>innerHTML\<close> builds for a text: the label of its span,
  and whether it has its two buttons.
\<close>

definition innerHTML :: "jsstring \<Rightarrow> (jsstring \<times> bool) option" where
  "innerHTML text =
     (case characterData text of
        None \<Rightarrow> None
      | Some (data, buttons) \<Rightarrow> map_option (\<lambda>label. (label, buttons)) (innerText data))"

section \<open>The page: input field, task list and local storage\<close>

text \<open>
  The script keeps no list of its own: the children of the \<open>taskList\<close> element are the
  tasks. An item is what the script reads from an \<open>li\<close>: the text of its span, its class
  list (the classes \<open>completed\<close> and \<open>drag-over\<close>) and its \<open>draggable\<close> flag. An item is
  addressed by its position among the children at the time of the event.
  Of \<open>localStorage\<close> the script uses the key \<open>tasks\<close> only: \<open>localStorage\<close> is the value
  under that key (\<open>None\<close> where \<open>getItem\<close> returns null), and \<open>setItem_calls\<close> counts the
  writes. \<open>setItem\<close> is taken to succeed (the storage quota is not modelled).
\<close>

record li =
  span :: jsstring
  classList :: "string list"
  draggable :: bool

record state =
  taskInput :: jsstring
  taskList :: "li list"
  localStorage :: "jsstring option"
  setItem_calls :: nat

datatype exception = SyntaxError | TypeError | NotFoundError

text \<open>
  A handler returns, or throws with the page as it is at that moment. \<open>Unmodelled\<close> is
  the outcome where the browser's behaviour lies outside this model (see
  \<open>innerHTML\<close> and \<open>templateString\<close>).
\<close>

datatype outcome = Returned state | Thrown exception state | Unmodelled

definition contains :: "string list \<Rightarrow> string \<Rightarrow> bool" where
  "contains cl c \<longleftrightarrow> c \<in> set cl"

definition add :: "string list \<Rightarrow> string \<Rightarrow> string list" where
  "add cl c = (if c \<in> set cl then cl else cl @ [c])"

definition remove :: "string list \<Rightarrow> string \<Rightarrow> string list" where
  "remove cl c = filter (\<lambda>d. d \<noteq> c) cl"

definition toggle :: "string list \<Rightarrow> string \<Rightarrow> string list" where
  "toggle cl c = (if c \<in> set cl then remove cl c else cl @ [c])"

definition task_of :: "li \<Rightarrow> task" where
  "task_of taskItem = (span taskItem, contains (classList taskItem) ''completed'')"

definition saveTasks :: "state \<Rightarrow> state" where
  "saveTasks s =
     (let tasks = map task_of (taskList s)
      in s\<lparr>localStorage := Some (JSON_stringify tasks), setItem_calls := Suc (setItem_calls s)\<rparr>)"

text \<open>
  \<open>addTask\<close> is the listener of both the button's \<open>click\<close> and the input's \<open>keyup\<close>; its
  argument is \<open>event.key\<close>, which is undefined (\<open>None\<close>) on a click. The new item is
  appended and the field cleared before the script looks for the item's buttons: where
  the markup has left the item without them, \<open>querySelector('.deleteBtn')\<close> is null and
  \<open>deleteBtn.addEventListener\<close> throws a TypeError, before the item is made draggable
  and before \<open>saveTasks\<close>.
\<close>

definition newTaskItem :: "jsstring \<Rightarrow> li" where
  "newTaskItem label = \<lparr>span = label, classList = [], draggable = True\<rparr>"

definition addTask :: "jsstring option \<Rightarrow> state \<Rightarrow> outcome" where
  "addTask key s =
     (if key = Some (js ''Enter'') then
        (let taskText = trim (taskInput s) in
         if taskText = [] then Returned s
         else
           (case innerHTML taskText of
              None \<Rightarrow> Unmodelled
            | Some (label, buttons) \<Rightarrow>
                if buttons
                then Returned (saveTasks (s\<lparr>taskList := taskList s @ [newTaskItem label], taskInput := []\<rparr>))
                else Thrown TypeError
                       (s\<lparr>taskList := taskList s @ [\<lparr>span = label, classList = [], draggable = False\<rparr>],
                          taskInput := []\<rparr>)))
      else Returned s)"

text \<open>
  \<open>deleteTask\<close> and \<open>toggleComplete\<close> run with \<open>this\<close> bound to a button; its parent is
  the item at position \<open>i\<close>. A position outside the list stands for an item that is no
  longer a child of the list: \<open>removeChild\<close> throws there, and \<open>classList.toggle\<close>
  changes nothing the list shows.
\<close>

definition deleteTask :: "nat \<Rightarrow> state \<Rightarrow> outcome" where
  "deleteTask i s =
     (if i < length (taskList s)
      then Returned (saveTasks (s\<lparr>taskList := take i (taskList s) @ drop (Suc i) (taskList s)\<rparr>))
      else Thrown NotFoundError s)"

definition toggleComplete :: "nat \<Rightarrow> state \<Rightarrow> outcome" where
  "toggleComplete i s =
     (if i < length (taskList s)
      then Returned (saveTasks (s\<lparr>taskList :=
             (taskList s)[i := (taskList s ! i)\<lparr>classList := toggle (classList (taskList s ! i)) ''completed''\<rparr>]\<rparr>))
      else Returned (saveTasks s))"

text \<open>
  \<open>handleDragStart\<close> puts the label of the item being dragged into the drag data;
  \<open>findTaskItemByText\<close> is the loop that looks an item up by its label and returns the
  first one, as a position.
\<close>

definition handleDragStart :: "nat \<Rightarrow> state \<Rightarrow> jsstring option" where
  "handleDragStart i s = (if i < length (taskList s) then Some (span (taskList s ! i)) else None)"

fun findTaskItemByText :: "jsstring \<Rightarrow> li list \<Rightarrow> nat option" where
  "findTaskItemByText text [] = None"
| "findTaskItemByText text (taskItem # taskItems) =
     (if span taskItem = text then Some 0 else map_option Suc (findTaskItemByText text taskItems))"

text \<open>
  \<open>parent.insertBefore(node, child)\<close> on the children of one parent, with \<open>node\<close> one of
  them: a \<open>child\<close> that is the node itself is replaced by the node's next sibling, the
  node is taken out, and it is put back before \<open>child\<close>, or at the end when \<open>child\<close> is
  null.
\<close>

definition nextElementSibling :: "'a list \<Rightarrow> nat \<Rightarrow> nat option" where
  "nextElementSibling children i = (if Suc i < length children then Some (Suc i) else None)"

definition insertBefore :: "'a list \<Rightarrow> nat \<Rightarrow> nat option \<Rightarrow> 'a list" where
  "insertBefore children node child =
     (let referenceChild = (if child = Some node then nextElementSibling children node else child);
          removed = take node children @ drop (Suc node) children
      in case referenceChild of
           None \<Rightarrow> removed @ [children ! node]
         | Some r \<Rightarrow>
             (let r' = (if node < r then r - 1 else r)
              in take r' removed @ children ! node # drop r' removed))"

text \<open>
  JavaScript numbers are IEEE 754 doubles: a finite one is modelled by its value, a
  rational. \<open>toDouble\<close> rounds a rational to the nearest double, a tie to the one with
  the even significand: the significand has 53 bits, the unit in the last place of a
  number between \<open>2 ^ e\<close> and \<open>2 ^ (e + 1)\<close> is \<open>2 ^ (e - 52)\<close>, and \<open>2 ^ -1074\<close> below
  \<open>2 ^ -1022\<close>; what rounds to \<open>2 ^ 1024\<close> or beyond is infinite. \<open>numberAdd\<close> and
  \<open>numberLess\<close> are the operators \<open>+\<close> and \<open><\<close> on numbers.
\<close>

datatype number = Finite rat | PlusInfinity | MinusInfinity | NaN

function bitLength :: "int \<Rightarrow> int" where
  "bitLength n = (if n \<le> 0 then 0 else 1 + bitLength (n div 2))"
  by pat_completeness auto
termination
  by (relation "measure nat") auto

definition pow2 :: "int \<Rightarrow> rat" where
  "pow2 e = (if 0 \<le> e then 2 ^ nat e else 1 / 2 ^ nat (- e))"

text \<open>The exponent of a positive rational \<open>a\<close>: \<open>2 ^ e \<le> a < 2 ^ (e + 1)\<close>.\<close>

definition exponent :: "rat \<Rightarrow> int" where
  "exponent a =
     (let k = bitLength (fst (quotient_of a)) - bitLength (snd (quotient_of a))
      in if pow2 k \<le> a then k else k - 1)"

definition roundTiesToEven :: "rat \<Rightarrow> int" where
  "roundTiesToEven m =
     (let n = \<lfloor>m\<rfloor>; r = m - of_int n
      in if r < 1 / 2 then n else if 1 / 2 < r then n + 1 else if even n then n else n + 1)"

definition toDouble :: "rat \<Rightarrow> number" where
  "toDouble q =
     (if q = 0 then Finite 0
      else
        (let e = max (exponent \<bar>q\<bar>) (- 1022);
             n = roundTiesToEven (\<bar>q\<bar> / pow2 (e - 52))
         in if 1023 < e \<or> (e = 1023 \<and> n = 2 ^ 53) then (if 0 < q then PlusInfinity else MinusInfinity)
            else Finite (sgn q * of_int n * pow2 (e - 52))))"

fun numberAdd :: "number \<Rightarrow> number \<Rightarrow> number" where
  "numberAdd (Finite x) (Finite y) = toDouble (x + y)"
| "numberAdd NaN y = NaN"
| "numberAdd x NaN = NaN"
| "numberAdd PlusInfinity MinusInfinity = NaN"
| "numberAdd MinusInfinity PlusInfinity = NaN"
| "numberAdd PlusInfinity y = PlusInfinity"
| "numberAdd MinusInfinity y = MinusInfinity"
| "numberAdd (Finite x) y = y"

fun numberLess :: "number \<Rightarrow> number \<Rightarrow> bool" where
  "numberLess (Finite x) (Finite y) \<longleftrightarrow> x < y"
| "numberLess NaN y \<longleftrightarrow> False"
| "numberLess x NaN \<longleftrightarrow> False"
| "numberLess PlusInfinity y \<longleftrightarrow> False"
| "numberLess x PlusInfinity \<longleftrightarrow> True"
| "numberLess x MinusInfinity \<longleftrightarrow> False"
| "numberLess MinusInfinity y \<longleftrightarrow> True"

text \<open>
  A drop event: its target is a task item, an element inside one, or the list element
  itself (where \<open>closest('li')\<close> is null); \<open>dataTransfer\<close> is the text of the drag data;
  \<open>clientY\<close> is the pointer's position, \<open>top\<close> and \<open>clientHeight\<close> the drop target's
  \<open>getBoundingClientRect().top\<close> and \<open>clientHeight\<close>. The positions are the values of
  doubles and are read as such; \<open>clientHeight\<close> is an integer. \<open>aboveMiddle\<close> is the test
  of the script, \<open>event.clientY < top + clientHeight / 2\<close>, in the script's arithmetic:
  halving an integer is exact, the sum is rounded.
\<close>

datatype target = Item nat | Inside nat | List

record drop_event =
  target :: target
  dataTransfer :: jsstring
  clientY :: rat
  top :: rat
  clientHeight :: int

definition aboveMiddle :: "drop_event \<Rightarrow> bool" where
  "aboveMiddle event \<longleftrightarrow>
     numberLess (toDouble (clientY event))
       (numberAdd (toDouble (top event)) (toDouble (of_int (clientHeight event) / 2)))"

definition closest_li :: "target \<Rightarrow> nat option" where
  "closest_li t = (case t of Item i \<Rightarrow> Some i | Inside i \<Rightarrow> Some i | List \<Rightarrow> None)"

definition remove_drag_over :: "target \<Rightarrow> li list \<Rightarrow> li list" where
  "remove_drag_over t items =
     (case t of
        Item i \<Rightarrow> if i < length items
                  then items[i := (items ! i)\<lparr>classList := remove (classList (items ! i)) ''drag-over''\<rparr>]
                  else items
      | _ \<Rightarrow> items)"

text \<open>
  \<open>handleDragEnter\<close> and \<open>handleDragLeave\<close> add the class \<open>drag-over\<close> to the event's
  target and remove it; \<open>handleDragOver\<close> changes nothing on the page. The class is on
  an item of the list only when the target is the item itself.
\<close>

definition add_drag_over :: "target \<Rightarrow> li list \<Rightarrow> li list" where
  "add_drag_over t items =
     (case t of
        Item i \<Rightarrow> if i < length items
                  then items[i := (items ! i)\<lparr>classList := add (classList (items ! i)) ''drag-over''\<rparr>]
                  else items
      | _ \<Rightarrow> items)"

definition handleDragEnter :: "target \<Rightarrow> state \<Rightarrow> state" where
  "handleDragEnter t s = s\<lparr>taskList := add_drag_over t (taskList s)\<rparr>"

definition handleDragLeave :: "target \<Rightarrow> state \<Rightarrow> state" where
  "handleDragLeave t s = s\<lparr>taskList := remove_drag_over t (taskList s)\<rparr>"

text \<open>
  \<open>handleDrop\<close>: the dragged item is looked up by the text of the drag data, the drop
  target is the closest \<open>li\<close> of the event's target; with both found, the dragged item is
  inserted before the target or before the target's next sibling, and the list is saved.
  A target position outside the list is no event of this page (\<open>Unmodelled\<close>).
\<close>

definition handleDrop :: "drop_event \<Rightarrow> state \<Rightarrow> outcome" where
  "handleDrop event s =
     (let items = remove_drag_over (target event) (taskList s);
          draggedText = dataTransfer event;
          draggedItem = findTaskItemByText draggedText items;
          dropTarget = closest_li (target event)
      in case dropTarget of
           None \<Rightarrow> Returned (s\<lparr>taskList := items\<rparr>)
         | Some t \<Rightarrow>
             if \<not> t < length items then Unmodelled
             else
               (case draggedItem of
                  None \<Rightarrow> Returned (s\<lparr>taskList := items\<rparr>)
                | Some d \<Rightarrow>
                    Returned (saveTasks (s\<lparr>taskList :=
                      (if aboveMiddle event
                       then insertBefore items d (Some t)
                       else insertBefore items d (nextElementSibling items t))\<rparr>))))"

section \<open>JSON text read by \<open>JSON.parse\<close>\<close>

text \<open>
  \<open>loadTasks\<close> parses whatever the store holds, so \<open>JSON.parse\<close> is modelled on every
  string: the JSON grammar of ECMA-404, by recursive descent. A number is the exact value
  of its literal. The recursion into arrays and objects runs on fuel; \<open>JSON_parse\<close>
  gives it more than any text can use (\<open>JSON_parse_fuel\<close> below), so \<open>Malformed\<close> is
  the SyntaxError of \<open>JSON.parse\<close>.
\<close>

datatype json =
  JNull | JBool bool | JNumber rat | JString jsstring | JArray "json list"
| JObject "(jsstring \<times> json) list"

datatype 'a parse = Parsed 'a | Malformed | OutOfFuel

definition isJSONWhiteSpace :: "code_unit \<Rightarrow> bool" where
  "isJSONWhiteSpace c \<longleftrightarrow> c = 0x09 \<or> c = 0x0A \<or> c = 0x0D \<or> c = 0x20"

definition skipWhiteSpace :: "jsstring \<Rightarrow> jsstring" where
  "skipWhiteSpace s = dropWhile isJSONWhiteSpace s"

definition hexValue :: "code_unit \<Rightarrow> nat option" where
  "hexValue c =
     (if 0x30 \<le> c \<and> c \<le> 0x39 then Some (unat c - 48)
      else if 0x61 \<le> c \<and> c \<le> 0x66 then Some (unat c - 87)
      else if 0x41 \<le> c \<and> c \<le> 0x46 then Some (unat c - 55)
      else None)"

definition hex4 :: "code_unit \<Rightarrow> code_unit \<Rightarrow> code_unit \<Rightarrow> code_unit \<Rightarrow> code_unit option" where
  "hex4 a b c d =
     (case (hexValue a, hexValue b, hexValue c, hexValue d) of
        (Some h3, Some h2, Some h1, Some h0) \<Rightarrow> Some (of_nat (((h3 * 16 + h2) * 16 + h1) * 16 + h0))
      | _ \<Rightarrow> None)"

definition unescape :: "code_unit \<Rightarrow> code_unit option" where
  "unescape e =
     (if e = 0x22 then Some 0x22
      else if e = 0x5C then Some 0x5C
      else if e = 0x2F then Some 0x2F
      else if e = 0x62 then Some 0x08
      else if e = 0x66 then Some 0x0C
      else if e = 0x6E then Some 0x0A
      else if e = 0x72 then Some 0x0D
      else if e = 0x74 then Some 0x09
      else None)"

definition consChar :: "code_unit \<Rightarrow> (jsstring \<times> jsstring) option \<Rightarrow> (jsstring \<times> jsstring) option" where
  "consChar c r = map_option (\<lambda>(str, rest). (c # str, rest)) r"

text \<open>The characters of a string after its opening quote, and the text after the closing one.\<close>

fun parseChars :: "jsstring \<Rightarrow> (jsstring \<times> jsstring) option" where
  "parseChars [] = None"
| "parseChars (c # cs) =
     (if c = 0x22 then Some ([], cs)
      else if c = 0x5C then
        (case cs of
           [] \<Rightarrow> None
         | e # r \<Rightarrow>
             if e = 0x75 then
               (case r of
                  h3 # h2 # h1 # h0 # r' \<Rightarrow>
                    (case hex4 h3 h2 h1 h0 of None \<Rightarrow> None | Some u \<Rightarrow> consChar u (parseChars r'))
                | _ \<Rightarrow> None)
             else (case unescape e of None \<Rightarrow> None | Some u \<Rightarrow> consChar u (parseChars r)))
      else if c < 0x20 then None
      else consChar c (parseChars cs))"

definition parseInt :: "jsstring \<Rightarrow> (jsstring \<times> jsstring) option" where
  "parseInt s =
     (case s of
        [] \<Rightarrow> None
      | c # r \<Rightarrow> if c = 0x30 then Some ([c], r)
                 else if isDigit c then Some (takeWhile isDigit s, dropWhile isDigit s)
                 else None)"

definition parseFraction :: "jsstring \<Rightarrow> (jsstring \<times> jsstring) option" where
  "parseFraction s =
     (case s of
        [] \<Rightarrow> Some ([], s)
      | c # r \<Rightarrow> if c = 0x2E
                 then (if takeWhile isDigit r = [] then None
                       else Some (takeWhile isDigit r, dropWhile isDigit r))
                 else Some ([], s))"

definition parseExponent :: "jsstring \<Rightarrow> (int \<times> jsstring) option" where
  "parseExponent s =
     (case s of
        [] \<Rightarrow> Some (0, s)
      | c # r \<Rightarrow>
          if c = 0x65 \<or> c = 0x45 then
            (let neg = (r \<noteq> [] \<and> hd r = 0x2D);
                 r' = (if r \<noteq> [] \<and> (hd r = 0x2D \<or> hd r = 0x2B) then tl r else r)
             in if takeWhile isDigit r' = [] then None
                else Some ((if neg then - int (digitsValue (takeWhile isDigit r'))
                            else int (digitsValue (takeWhile isDigit r'))),
                           dropWhile isDigit r'))
          else Some (0, s))"

definition parseNumber :: "jsstring \<Rightarrow> (rat \<times> jsstring) option" where
  "parseNumber s =
     (let neg = (s \<noteq> [] \<and> hd s = 0x2D);
          s1 = (if neg then tl s else s)
      in case parseInt s1 of
           None \<Rightarrow> None
         | Some (ip, s2) \<Rightarrow>
             (case parseFraction s2 of
                None \<Rightarrow> None
              | Some (fp, s3) \<Rightarrow>
                  (case parseExponent s3 of
                     None \<Rightarrow> None
                   | Some (e, s4) \<Rightarrow>
                       (let m = of_nat (digitsValue (ip @ fp)) / 10 ^ length fp;
                            v = (if 0 \<le> e then m * 10 ^ nat e else m / 10 ^ nat (- e))
                        in Some ((if neg then - v else v), s4)))))"

fun parseValue :: "nat \<Rightarrow> jsstring \<Rightarrow> (json \<times> jsstring) parse"
  and parseElements :: "nat \<Rightarrow> jsstring \<Rightarrow> (json list \<times> jsstring) parse"
  and parseMembers :: "nat \<Rightarrow> jsstring \<Rightarrow> ((jsstring \<times> json) list \<times> jsstring) parse"
where
  "parseValue 0 s = OutOfFuel"
| "parseValue (Suc n) s =
     (case skipWhiteSpace s of
        [] \<Rightarrow> Malformed
      | c # cs \<Rightarrow>
          if c = 0x5B then
            (case skipWhiteSpace cs of
               [] \<Rightarrow> Malformed
             | d # ds \<Rightarrow>
                 if d = 0x5D then Parsed (JArray [], ds)
                 else (case parseElements n cs of
                         Parsed (vs, r) \<Rightarrow> Parsed (JArray vs, r)
                       | Malformed \<Rightarrow> Malformed
                       | OutOfFuel \<Rightarrow> OutOfFuel))
          else if c = 0x7B then
            (case skipWhiteSpace cs of
               [] \<Rightarrow> Malformed
             | d # ds \<Rightarrow>
                 if d = 0x7D then Parsed (JObject [], ds)
                 else (case parseMembers n cs of
                         Parsed (ms, r) \<Rightarrow> Parsed (JObject ms, r)
                       | Malformed \<Rightarrow> Malformed
                       | OutOfFuel \<Rightarrow> OutOfFuel))
          else if c = 0x22 then
            (case parseChars cs of None \<Rightarrow> Malformed | Some (str, r) \<Rightarrow> Parsed (JString str, r))
          else if take 4 (c # cs) = js ''null'' then Parsed (JNull, drop 3 cs)
          else if take 4 (c # cs) = js ''true'' then Parsed (JBool True, drop 3 cs)
          else if take 5 (c # cs) = js ''false'' then Parsed (JBool False, drop 4 cs)
          else (case parseNumber (c # cs) of
                  None \<Rightarrow> Malformed
                | Some (q, r) \<Rightarrow> Parsed (JNumber q, r)))"
| "parseElements 0 s = OutOfFuel"
| "parseElements (Suc n) s =
     (case parseValue n s of
        Parsed (v, r) \<Rightarrow>
          (case skipWhiteSpace r of
             [] \<Rightarrow> Malformed
           | c # cs \<Rightarrow>
               if c = 0x2C then
                 (case parseElements n cs of
                    Parsed (vs, r') \<Rightarrow> Parsed (v # vs, r')
                  | Malformed \<Rightarrow> Malformed
                  | OutOfFuel \<Rightarrow> OutOfFuel)
               else if c = 0x5D then Parsed ([v], cs)
               else Malformed)
      | Malformed \<Rightarrow> Malformed
      | OutOfFuel \<Rightarrow> OutOfFuel)"
| "parseMembers 0 s = OutOfFuel"
| "parseMembers (Suc n) s =
     (case skipWhiteSpace s of
        [] \<Rightarrow> Malformed
      | c # cs \<Rightarrow>
          if c \<noteq> 0x22 then Malformed
          else
            (case parseChars cs of
               None \<Rightarrow> Malformed
             | Some (k, r) \<Rightarrow>
                 (case skipWhiteSpace r of
                    [] \<Rightarrow> Malformed
                  | d # ds \<Rightarrow>
                      if d \<noteq> 0x3A then Malformed
                      else
                        (case parseValue n ds of
                           Parsed (v, r') \<Rightarrow>
                             (case skipWhiteSpace r' of
                                [] \<Rightarrow> Malformed
                              | e # es \<Rightarrow>
                                  if e = 0x2C then
                                    (case parseMembers n es of
                                       Parsed (ms, r'') \<Rightarrow> Parsed ((k, v) # ms, r'')
                                     | Malformed \<Rightarrow> Malformed
                                     | OutOfFuel \<Rightarrow> OutOfFuel)
                                  else if e = 0x7D then Parsed ([(k, v)], es)
                                  else Malformed)
                         | Malformed \<Rightarrow> Malformed
                         | OutOfFuel \<Rightarrow> OutOfFuel))))"

definition JSON_parse :: "jsstring \<Rightarrow> json parse" where
  "JSON_parse text =
     (case parseValue (2 * length text + 1) text of
        Parsed (v, r) \<Rightarrow> if skipWhiteSpace r = [] then Parsed v else Malformed
      | Malformed \<Rightarrow> Malformed
      | OutOfFuel \<Rightarrow> OutOfFuel)"

section \<open>Restoring the list\<close>

text \<open>
  What \<open>loadTasks\<close> does with the parsed value, in JavaScript's terms: a value is truthy
  or falsy (a number literal is falsy when it rounds to zero as a double, that is when it
  is at most \<open>2 ^ -1075\<close> in size); reading a property of anything but an object with
  that key gives undefined (\<open>None\<close>), a repeated key having the value of its last
  occurrence; a template literal turns undefined, null, booleans and strings into text.
  Numbers, arrays and objects as the text of a task are outside the model.
\<close>

fun truthy :: "json \<Rightarrow> bool" where
  "truthy JNull \<longleftrightarrow> False"
| "truthy (JBool b) \<longleftrightarrow> b"
| "truthy (JNumber q) \<longleftrightarrow> 1 < \<bar>q\<bar> * 2 ^ 1075"
| "truthy (JString str) \<longleftrightarrow> str \<noteq> []"
| "truthy (JArray vs) \<longleftrightarrow> True"
| "truthy (JObject ms) \<longleftrightarrow> True"

fun getProperty :: "json \<Rightarrow> jsstring \<Rightarrow> json option" where
  "getProperty (JObject ms) k = map_of (rev ms) k"
| "getProperty v k = None"

fun templateString :: "json option \<Rightarrow> jsstring option" where
  "templateString None = Some (js ''undefined'')"
| "templateString (Some JNull) = Some (js ''null'')"
| "templateString (Some (JBool b)) = Some (js (if b then ''true'' else ''false''))"
| "templateString (Some (JString str)) = Some str"
| "templateString (Some v) = None"

definition truthy_property :: "json option \<Rightarrow> bool" where
  "truthy_property p = (case p of None \<Rightarrow> False | Some v \<Rightarrow> truthy v)"

text \<open>
  The body of \<open>tasks.forEach\<close>: reading \<open>task.text\<close> of null throws a TypeError, with the
  items appended so far left in the list. An item that the markup has left without its
  buttons is appended and given its class, then \<open>deleteBtn.addEventListener\<close> throws a
  TypeError: the item is not draggable and the tasks after it are not restored.
\<close>

fun forEach_task :: "json list \<Rightarrow> state \<Rightarrow> outcome" where
  "forEach_task [] s = Returned s"
| "forEach_task (task # tasks) s =
     (if task = JNull then Thrown TypeError s
      else
        (case templateString (getProperty task (js ''text'')) of
           None \<Rightarrow> Unmodelled
         | Some text \<Rightarrow>
             (case innerHTML text of
                None \<Rightarrow> Unmodelled
              | Some (label, buttons) \<Rightarrow>
                  if buttons
                  then forEach_task tasks (s\<lparr>taskList := taskList s @
                    [\<lparr>span = label,
                      classList = (if truthy_property (getProperty task (js ''completed''))
                                   then add [] ''completed'' else []),
                      draggable = True\<rparr>]\<rparr>)
                  else Thrown TypeError (s\<lparr>taskList := taskList s @
                    [\<lparr>span = label,
                      classList = (if truthy_property (getProperty task (js ''completed''))
                                   then add [] ''completed'' else []),
                      draggable = False\<rparr>]\<rparr>))))"

text \<open>
  \<open>loadTasks\<close> runs once, when the page has loaded, before the listeners are attached.
  \<open>JSON.parse(localStorage.getItem('tasks')) || []\<close>: null is parsed as the text
  \<open>null\<close>; a truthy value without a \<open>forEach\<close> method (anything but an array) throws a
  TypeError.
\<close>

definition loadTasks :: "state \<Rightarrow> outcome" where
  "loadTasks s =
     (case JSON_parse (case localStorage s of None \<Rightarrow> js ''null'' | Some v \<Rightarrow> v) of
        Malformed \<Rightarrow> Thrown SyntaxError s
      | OutOfFuel \<Rightarrow> Unmodelled
      | Parsed v \<Rightarrow>
          (case (if truthy v then v else JArray []) of
             JArray tasks \<Rightarrow> forEach_task tasks s
           | _ \<Rightarrow> Thrown TypeError s))"

text \<open>The value that \<open>JSON.parse\<close> builds for the object that \<open>saveTasks\<close> wrote for a task.\<close>

definition task_object :: "task \<Rightarrow> json" where
  "task_object t = JObject [(js ''text'', JString (fst t)), (js ''completed'', JBool (snd t))]"

section \<open>\<open>JSON.parse\<close> reads back what \<open>JSON.stringify\<close> wrote\<close>

lemma hexValue_hexDigit: "n < 16 \<Longrightarrow> hexValue (hexDigit n) = Some n"
proof -
  have "\<forall>k\<in>set [0..<16]. hexValue (hexDigit k) = Some k"
    by code_simp
  moreover assume "n < 16"
  ultimately show ?thesis
    by simp
qed

lemma hex_digits_value:
  fixes n :: nat
  assumes "n < 65536"
  shows "((n div 4096 mod 16 * 16 + n div 256 mod 16) * 16 + n div 16 mod 16) * 16 + n mod 16 = n"
proof -
  have "n mod (16 * 16) = 16 * (n div 16 mod 16) + n mod 16"
    by (rule mod_mult2_eq)
  then have a: "n div 16 mod 16 * 16 + n mod 16 = n mod 256"
    by simp
  have "n mod (256 * 16) = 256 * (n div 256 mod 16) + n mod 256"
    by (rule mod_mult2_eq)
  then have b: "n div 256 mod 16 * 256 + n mod 256 = n mod 4096"
    by simp
  have "n mod (4096 * 16) = 4096 * (n div 4096 mod 16) + n mod 4096"
    by (rule mod_mult2_eq)
  then have c: "n div 4096 mod 16 * 4096 + n mod 4096 = n mod 65536"
    by simp
  have "((n div 4096 mod 16 * 16 + n div 256 mod 16) * 16 + n div 16 mod 16) * 16 + n mod 16
      = n div 4096 mod 16 * 4096 + (n div 256 mod 16 * 256 + (n div 16 mod 16 * 16 + n mod 16))"
    by simp
  also have "\<dots> = n mod 65536"
    by (simp only: a b c)
  finally show ?thesis
    using assms by simp
qed

lemma hex4_unicodeEscape:
  "hex4 (hexDigit (unat c div 4096 mod 16)) (hexDigit (unat c div 256 mod 16))
        (hexDigit (unat c div 16 mod 16)) (hexDigit (unat c mod 16)) = Some c"
proof -
  have "unat c < 65536"
    using unsigned_less [of c] by simp
  then have "((unat c div 4096 mod 16 * 16 + unat c div 256 mod 16) * 16 + unat c div 16 mod 16) * 16
      + unat c mod 16 = unat c"
    by (rule hex_digits_value)
  then have "(of_nat (((unat c div 4096 mod 16 * 16 + unat c div 256 mod 16) * 16
      + unat c div 16 mod 16) * 16 + unat c mod 16) :: code_unit) = of_nat (unat c)"
    by (rule arg_cong)
  also have "(of_nat (unat c) :: code_unit) = c"
    by simp
  finally have "(of_nat (((unat c div 4096 mod 16 * 16 + unat c div 256 mod 16) * 16
      + unat c div 16 mod 16) * 16 + unat c mod 16) :: code_unit) = c" .
  then show ?thesis
    unfolding hex4_def by (simp only: hexValue_hexDigit mod_less_divisor zero_less_numeral
        prod.case option.case)
qed

lemma parseChars_unicodeEscape:
  "parseChars (unicodeEscape c @ rest) = consChar c (parseChars rest)"
  by (simp add: unicodeEscape_def hex4_unicodeEscape)

lemma surrogate_not_special:
  assumes "isLeadingSurrogate c \<or> isTrailingSurrogate c"
  shows "c \<noteq> 0x22" "c \<noteq> 0x5C" "\<not> c < 0x20"
  using assms by (auto simp: isLeadingSurrogate_def isTrailingSurrogate_def word_le_nat_alt word_less_nat_alt)

lemma parseChars_quoteCodeUnit:
  "parseChars (quoteCodeUnit c @ rest) = consChar c (parseChars rest)"
proof -
  consider "c = 0x08" | "c = 0x09" | "c = 0x0A" | "c = 0x0C" | "c = 0x0D" | "c = 0x22" | "c = 0x5C"
    | "c \<notin> {0x08, 0x09, 0x0A, 0x0C, 0x0D, 0x22, 0x5C}"
      "c < 0x20 \<or> isLeadingSurrogate c \<or> isTrailingSurrogate c"
    | "c \<notin> {0x08, 0x09, 0x0A, 0x0C, 0x0D, 0x22, 0x5C}"
      "\<not> (c < 0x20 \<or> isLeadingSurrogate c \<or> isTrailingSurrogate c)"
    by blast
  then show ?thesis
  proof cases
    case 8
    then have "quoteCodeUnit c = unicodeEscape c"
      by (simp add: quoteCodeUnit_def)
    then show ?thesis
      by (simp only: parseChars_unicodeEscape)
  next
    case 9
    then have "quoteCodeUnit c = [c]"
      by (simp add: quoteCodeUnit_def)
    with 9 show ?thesis
      by simp
  qed (simp_all add: quoteCodeUnit_def unescape_def)
qed

lemma parseChars_surrogate_pair:
  assumes "isLeadingSurrogate c" "isTrailingSurrogate d"
  shows "parseChars (c # d # rest) = consChar c (consChar d (parseChars rest))"
  using surrogate_not_special [of c] surrogate_not_special [of d] assms by simp

lemma parseChars_quoteChars:
  "parseChars (quoteChars str @ 0x22 # rest) = Some (str, rest)"
proof (induction str rule: quoteChars.induct)
  case 1
  show ?case by simp
next
  case (2 c)
  show ?case
    by (simp add: parseChars_quoteCodeUnit consChar_def)
next
  case (3 c d cs)
  show ?case
  proof (cases "isLeadingSurrogate c \<and> isTrailingSurrogate d")
    case True
    then have "quoteChars (c # d # cs) = c # d # quoteChars cs"
      by simp
    with 3 True show ?thesis
      by (simp add: parseChars_surrogate_pair consChar_def del: parseChars.simps quoteChars.simps)
  next
    case False
    then have "quoteChars (c # d # cs) = quoteCodeUnit c @ quoteChars (d # cs)"
      by auto
    with 3 False show ?thesis
      by (simp add: parseChars_quoteCodeUnit consChar_def del: parseChars.simps quoteChars.simps)
  qed
qed

lemma skipWhiteSpace_Cons:
  "\<not> isJSONWhiteSpace c \<Longrightarrow> skipWhiteSpace (c # cs) = c # cs"
  by (simp add: skipWhiteSpace_def)

lemma parseValue_string:
  "parseValue (Suc n) (QuoteJSONString str @ rest) = Parsed (JString str, rest)"
  by (simp add: QuoteJSONString_def skipWhiteSpace_Cons isJSONWhiteSpace_def parseChars_quoteChars)

lemma parseValue_bool:
  "parseValue (Suc n) (js (if b then ''true'' else ''false'') @ 0x7D # rest)
     = Parsed (JBool b, 0x7D # rest)"
  by (simp add: js_def skipWhiteSpace_Cons isJSONWhiteSpace_def)

lemma parseMembers_completed:
  \<open>parseMembers (Suc (Suc n)) (js ''"completed":'' @ js (if b then ''true'' else ''false'') @ js ''}'' @ rest)
     = Parsed ([(js ''completed'', JBool b)], rest)\<close>
proof -
  have key: \<open>js ''"completed":'' @ js (if b then ''true'' else ''false'') @ js ''}'' @ rest
      = 0x22 # js ''completed'' @ 0x22 # 0x3A # js (if b then ''true'' else ''false'') @ 0x7D # rest\<close>
    by (simp add: js_def)
  have chars: "parseChars (js ''completed'' @ 0x22 # r) = Some (js ''completed'', r)" for r
    by (simp add: js_def consChar_def)
  show ?thesis
    unfolding key
    by (subst parseMembers.simps)
      (simp add: skipWhiteSpace_Cons isJSONWhiteSpace_def chars parseValue_bool
          del: parseValue.simps parseMembers.simps)
qed

lemma parseMembers_task:
  \<open>parseMembers (Suc (Suc (Suc n))) (js ''"text":'' @ QuoteJSONString str @ js '',"completed":'' @
      js (if b then ''true'' else ''false'') @ js ''}'' @ rest)
     = Parsed ([(js ''text'', JString str), (js ''completed'', JBool b)], rest)\<close>
proof -
  have key: \<open>js ''"text":'' @ QuoteJSONString str @ js '',"completed":'' @
      js (if b then ''true'' else ''false'') @ js ''}'' @ rest
      = 0x22 # js ''text'' @ 0x22 # 0x3A # QuoteJSONString str @ 0x2C #
        (js ''"completed":'' @ js (if b then ''true'' else ''false'') @ js ''}'' @ rest)\<close>
    by (simp add: js_def)
  have chars: "parseChars (js ''text'' @ 0x22 # r) = Some (js ''text'', r)" for r
    by (simp add: js_def consChar_def)
  show ?thesis
    unfolding key
    by (subst parseMembers.simps)
      (simp add: skipWhiteSpace_Cons isJSONWhiteSpace_def chars parseValue_string
          parseMembers_completed del: parseValue.simps parseMembers.simps)
qed

lemma parseValue_task:
  "parseValue (Suc (Suc (Suc (Suc n)))) (stringify_task t @ rest) = Parsed (task_object t, rest)"
proof -
  have key: \<open>stringify_task t @ rest = 0x7B # (js ''"text":'' @ QuoteJSONString (fst t) @
      js '',"completed":'' @ js (if snd t then ''true'' else ''false'') @ js ''}'' @ rest)\<close>
    by (simp add: stringify_task_def js_def)
  have q: \<open>skipWhiteSpace (js ''"text":'' @ r) = 0x22 # js ''text":'' @ r\<close> for r
    by (simp add: js_def skipWhiteSpace_Cons isJSONWhiteSpace_def)
  show ?thesis
    unfolding key
    by (subst parseValue.simps)
      (simp add: skipWhiteSpace_Cons isJSONWhiteSpace_def q parseMembers_task task_object_def
          del: parseMembers.simps parseValue.simps)
qed

lemma stringify_task_brace: "\<exists>r. stringify_task t = 0x7B # r"
  by (simp add: stringify_task_def js_def)

lemma stringify_elements_brace: "\<exists>r. stringify_elements (t # ts) = 0x7B # r"
  using stringify_task_brace [of t] by (cases ts) auto

lemma length_stringify_elements: "length ts \<le> length (stringify_elements ts)"
proof (induction ts rule: stringify_elements.induct)
  case 1
  show ?case by simp
next
  case (2 t)
  show ?case
    using stringify_task_brace [of t] by auto
next
  case (3 t u ts)
  then show ?case by simp
qed

lemma parseElements_tasks:
  "length ts + 4 \<le> n \<Longrightarrow>
   parseElements (Suc n) (stringify_elements (t # ts) @ 0x5D # rest)
     = Parsed (map task_object (t # ts), rest)"
proof (induction ts arbitrary: t n)
  case Nil
  then have "4 \<le> n"
    by simp
  then obtain m where "n = 4 + m"
    using le_iff_add by blast
  then have n: "n = Suc (Suc (Suc (Suc m)))"
    by simp
  show ?case
    unfolding n
    by (subst parseElements.simps)
      (simp add: parseValue_task skipWhiteSpace_def isJSONWhiteSpace_def
        del: parseValue.simps parseElements.simps)
next
  case (Cons u us)
  then have "4 \<le> n"
    by simp
  then obtain m where "n = 4 + m"
    using le_iff_add by blast
  with Cons.prems have n: "n = Suc (Suc (Suc (Suc m)))" and m: "length us + 1 \<le> m"
    by simp_all
  have ih: "parseElements (Suc (Suc (Suc (Suc m)))) (stringify_elements (u # us) @ 0x5D # rest)
     = Parsed (map task_object (u # us), rest)"
    using Cons.IH [of "Suc (Suc (Suc m))" u] m by simp
  show ?case
    unfolding n
    by (subst parseElements.simps)
      (simp add: parseValue_task skipWhiteSpace_def isJSONWhiteSpace_def ih
        del: parseValue.simps parseElements.simps)
qed

lemma JSON_parse_stringify:
  "JSON_parse (JSON_stringify ts) = Parsed (JArray (map task_object ts))"
proof (cases ts)
  case Nil
  have "JSON_parse (JSON_stringify []) = Parsed (JArray [])"
    by code_simp
  with Nil show ?thesis
    by simp
next
  case (Cons t us)
  obtain r where r: "stringify_elements (t # us) = 0x7B # r"
    using stringify_elements_brace by blast
  have "length us + 1 \<le> length (stringify_elements (t # us))"
    using length_stringify_elements [of "t # us"] by simp
  then have "length us + 5 \<le> 2 * length (JSON_stringify ts)"
    by (simp add: JSON_stringify_def Cons del: stringify_elements.simps)
  then obtain k where k: "2 * length (JSON_stringify ts) = length us + 5 + k"
    using le_iff_add by blast
  define n where "n = length us + 4 + k"
  have fuel: "2 * length (JSON_stringify ts) + 1 = Suc (Suc n)" and n: "length us + 4 \<le> n"
    by (simp_all add: k n_def)
  have el: "parseElements (Suc n) (stringify_elements (t # us) @ [0x5D]) = Parsed (map task_object (t # us), [])"
    using parseElements_tasks [OF n] by simp
  have skip: "skipWhiteSpace (stringify_elements (t # us) @ [0x5D]) = 0x7B # r @ [0x5D]"
    by (simp add: r skipWhiteSpace_def isJSONWhiteSpace_def)
  show ?thesis
    unfolding JSON_parse_def fuel
    by (subst parseValue.simps)
      (simp add: JSON_stringify_def Cons skipWhiteSpace_Cons isJSONWhiteSpace_def skip el
        skipWhiteSpace_def [of "[]"] del: parseValue.simps parseElements.simps stringify_elements.simps)
qed

section \<open>The fuel of \<open>JSON_parse\<close> always suffices\<close>

lemma length_skipWhiteSpace: "length (skipWhiteSpace s) \<le> length s"
  by (simp add: skipWhiteSpace_def length_dropWhile_le)

lemma skipWhiteSpace_Cons_length: "skipWhiteSpace s = c # cs \<Longrightarrow> length cs < length s"
  using length_skipWhiteSpace [of s] by simp

lemma parseChars_shorter: "parseChars cs = Some (str, r) \<Longrightarrow> length r < Suc (length cs)"
proof (induction cs arbitrary: str rule: parseChars.induct)
  case 1
  then show ?case by simp
next
  case (2 c cs)
  then show ?case
    by (auto simp: consChar_def split: if_splits list.splits option.splits) fastforce+
qed


lemma parseInt_shorter: "parseInt s = Some (ip, r) \<Longrightarrow> length r < length s"
  by (cases s) (auto simp: parseInt_def less_Suc_eq_le length_dropWhile_le split: if_splits)

lemma parseFraction_shorter: "parseFraction s = Some (fp, r) \<Longrightarrow> length r \<le> length s"
  by (cases s) (auto simp: parseFraction_def le_SucI length_dropWhile_le split: if_splits)

lemma parseExponent_shorter: "parseExponent s = Some (e, r) \<Longrightarrow> length r \<le> length s"
proof (cases s)
  case Nil
  moreover assume "parseExponent s = Some (e, r)"
  ultimately show ?thesis
    by (simp add: parseExponent_def)
next
  case (Cons c cs)
  have tl: "length (dropWhile isDigit (tl cs)) \<le> length cs"
    by (cases cs) (simp_all add: le_SucI length_dropWhile_le)
  assume "parseExponent s = Some (e, r)"
  with Cons tl show ?thesis
    by (auto simp: parseExponent_def Let_def le_SucI length_dropWhile_le split: if_splits)
qed

lemma parseNumber_shorter: "parseNumber s = Some (q, r) \<Longrightarrow> length r < length s"
proof -
  assume a: "parseNumber s = Some (q, r)"
  then obtain ip s2 fp s3 e where
    i: "parseInt (if s \<noteq> [] \<and> hd s = 0x2D then tl s else s) = Some (ip, s2)" and
    f: "parseFraction s2 = Some (fp, s3)" and x: "parseExponent s3 = Some (e, r)"
    by (auto simp: parseNumber_def Let_def split: option.splits prod.splits)
  have "length (if s \<noteq> [] \<and> hd s = 0x2D then tl s else s) \<le> length s"
    by simp
  with parseInt_shorter [OF i] parseFraction_shorter [OF f] parseExponent_shorter [OF x]
  show ?thesis
    by linarith
qed

lemma parse_shorter:
  "(parseValue n s = Parsed (v, r) \<longrightarrow> length r < length s) \<and>
   (parseElements n s = Parsed (vs, r) \<longrightarrow> length r < length s) \<and>
   (parseMembers n s = Parsed (ms, r) \<longrightarrow> length r < length s)"
proof (induction n arbitrary: s v r vs ms)
  case 0
  show ?case by simp
next
  case (Suc n)
  have V: "parseValue n s = Parsed (v, r) \<Longrightarrow> length r < length s" for s v r
    using Suc.IH by blast
  have E: "parseElements n s = Parsed (vs, r) \<Longrightarrow> length r < length s" for s vs r
    using Suc.IH by blast
  have M: "parseMembers n s = Parsed (ms, r) \<Longrightarrow> length r < length s" for s ms r
    using Suc.IH by blast
  have pv: "length r < length s" if a: "parseValue (Suc n) s = Parsed (v, r)"
  proof (cases "skipWhiteSpace s")
    case Nil
    with a show ?thesis by simp
  next
    case (Cons c cs)
    then have cs: "length cs < length s"
      by (rule skipWhiteSpace_Cons_length)
    have drop3: "length (drop 3 cs) < length s" and drop4: "length (drop 4 cs) < length s"
      using cs by simp_all
    consider "c = 0x5B" | "c \<noteq> 0x5B" "c = 0x7B" | "c \<noteq> 0x5B" "c \<noteq> 0x7B" "c = 0x22"
      | "c \<noteq> 0x5B" "c \<noteq> 0x7B" "c \<noteq> 0x22"
      by blast
    then show ?thesis
    proof cases
      case 1
      show ?thesis
      proof (cases "skipWhiteSpace cs")
        case Nil
        with a Cons 1 show ?thesis by simp
      next
        case inner: (Cons d ds)
        then have "length ds < length cs"
          by (rule skipWhiteSpace_Cons_length)
        with a Cons 1 inner cs E show ?thesis
          by (fastforce split: if_splits parse.splits)
      qed
    next
      case 2
      show ?thesis
      proof (cases "skipWhiteSpace cs")
        case Nil
        with a Cons 2 show ?thesis by simp
      next
        case inner: (Cons d ds)
        then have "length ds < length cs"
          by (rule skipWhiteSpace_Cons_length)
        with a Cons 2 inner cs M show ?thesis
          by (fastforce split: if_splits parse.splits)
      qed
    next
      case 3
      with a Cons cs show ?thesis
        by (auto split: option.splits dest!: parseChars_shorter)
    next
      case 4
      have "length r < length (c # cs)" if "parseNumber (c # cs) = Some (q, r)" for q
        using that by (rule parseNumber_shorter)
      with a Cons cs drop3 drop4 4 show ?thesis
        by (auto split: if_splits option.splits)
    qed
  qed
  have pe: "length r < length s" if a: "parseElements (Suc n) s = Parsed (vs, r)"
  proof -
    from a obtain v r1 where v: "parseValue n s = Parsed (v, r1)"
      by (auto split: parse.splits)
    then have r1: "length r1 < length s"
      by (rule V)
    show ?thesis
    proof (cases "skipWhiteSpace r1")
      case Nil
      with a v show ?thesis by simp
    next
      case (Cons c cs)
      then have "length cs < length r1"
        by (rule skipWhiteSpace_Cons_length)
      with a v Cons r1 E show ?thesis
        by (fastforce split: if_splits parse.splits)
    qed
  qed
  have pm: "length r < length s" if a: "parseMembers (Suc n) s = Parsed (ms, r)"
  proof (cases "skipWhiteSpace s")
    case Nil
    with a show ?thesis by simp
  next
    case (Cons c cs)
    then have cs: "length cs < length s"
      by (rule skipWhiteSpace_Cons_length)
    from a Cons obtain k r1 where k: "parseChars cs = Some (k, r1)"
      by (auto split: if_splits option.splits)
    then have r1: "length r1 < Suc (length cs)"
      by (rule parseChars_shorter)
    from a Cons k obtain d ds where d: "skipWhiteSpace r1 = d # ds"
      by (auto split: if_splits list.splits)
    then have ds: "length ds < length r1"
      by (rule skipWhiteSpace_Cons_length)
    from a Cons k d obtain v r2 where v: "parseValue n ds = Parsed (v, r2)"
      by (auto split: if_splits parse.splits)
    then have r2: "length r2 < length ds"
      by (rule V)
    from a Cons k d v obtain e es where e: "skipWhiteSpace r2 = e # es"
      by (auto split: if_splits list.splits)
    then have es: "length es < length r2"
      by (rule skipWhiteSpace_Cons_length)
    from a Cons k d v e cs r1 ds r2 es M show ?thesis
      by (fastforce split: if_splits parse.splits)
  qed
  from pv pe pm show ?case
    by blast
qed

lemma parse_fuel:
  "(2 * length s < n \<longrightarrow> parseValue n s \<noteq> OutOfFuel) \<and>
   (2 * length s + 1 < n \<longrightarrow> parseElements n s \<noteq> OutOfFuel) \<and>
   (2 * length s < n \<longrightarrow> parseMembers n s \<noteq> OutOfFuel)"
proof (induction n arbitrary: s)
  case 0
  show ?case by simp
next
  case (Suc n)
  have V: "2 * length s < n \<Longrightarrow> parseValue n s \<noteq> OutOfFuel" for s
    using Suc.IH by blast
  have E: "2 * length s + 1 < n \<Longrightarrow> parseElements n s \<noteq> OutOfFuel" for s
    using Suc.IH by blast
  have M: "2 * length s < n \<Longrightarrow> parseMembers n s \<noteq> OutOfFuel" for s
    using Suc.IH by blast
  have pv: "parseValue (Suc n) s \<noteq> OutOfFuel" if n: "2 * length s < Suc n"
  proof (cases "skipWhiteSpace s")
    case Nil
    then show ?thesis by simp
  next
    case (Cons c cs)
    then have "length cs < length s"
      by (rule skipWhiteSpace_Cons_length)
    with n have "2 * length cs + 1 < n"
      by simp
    then have "parseElements n cs \<noteq> OutOfFuel" and "parseMembers n cs \<noteq> OutOfFuel"
      using E M by simp_all
    with Cons show ?thesis
      by (simp split: list.splits parse.splits option.splits)
  qed
  have pe: "parseElements (Suc n) s \<noteq> OutOfFuel" if n: "2 * length s + 1 < Suc n"
  proof (cases "parseValue n s")
    case (Parsed p)
    obtain v r where p: "p = (v, r)"
      by (cases p)
    with Parsed have "length r < length s"
      using parse_shorter by blast
    show ?thesis
    proof (cases "skipWhiteSpace r")
      case Nil
      with Parsed p show ?thesis by simp
    next
      case (Cons c cs)
      then have "length cs < length r"
        by (rule skipWhiteSpace_Cons_length)
      with \<open>length r < length s\<close> n have "2 * length cs + 1 < n"
        by simp
      then have "parseElements n cs \<noteq> OutOfFuel"
        by (rule E)
      with Parsed p Cons show ?thesis
        by (simp split: parse.splits)
    qed
  next
    case Malformed
    then show ?thesis by simp
  next
    case OutOfFuel
    moreover from n have "2 * length s < n"
      by simp
    ultimately show ?thesis
      using V by blast
  qed
  have pm: "parseMembers (Suc n) s \<noteq> OutOfFuel" if n: "2 * length s < Suc n"
  proof (cases "skipWhiteSpace s")
    case Nil
    then show ?thesis by simp
  next
    case (Cons c cs)
    then have cs: "length cs < length s"
      by (rule skipWhiteSpace_Cons_length)
    show ?thesis
    proof (cases "c = 0x22")
      case False
      with Cons show ?thesis by simp
    next
      case quote: True
      show ?thesis
      proof (cases "parseChars cs")
        case None
        with Cons quote show ?thesis by simp
      next
        case (Some p)
        obtain k r1 where p: "p = (k, r1)"
          by (cases p)
        with Some have r1: "length r1 < Suc (length cs)"
          using parseChars_shorter by blast
        show ?thesis
        proof (cases "skipWhiteSpace r1")
          case Nil
          with Cons quote Some p show ?thesis by simp
        next
          case colon: (Cons d ds)
          then have ds: "length ds < length r1"
            by (rule skipWhiteSpace_Cons_length)
          show ?thesis
          proof (cases "parseValue n ds")
            case (Parsed q)
            obtain v r2 where q: "q = (v, r2)"
              by (cases q)
            with Parsed have r2: "length r2 < length ds"
              using parse_shorter by blast
            show ?thesis
            proof (cases "skipWhiteSpace r2")
              case Nil
              with Cons quote Some p colon Parsed q show ?thesis by simp
            next
              case comma: (Cons e es)
              then have "length es < length r2"
                by (rule skipWhiteSpace_Cons_length)
              with cs r1 ds r2 n have "2 * length es < n"
                by simp
              then have "parseMembers n es \<noteq> OutOfFuel"
                by (rule M)
              with Cons quote Some p colon Parsed q comma show ?thesis
                by (simp split: parse.splits)
            qed
          next
            case Malformed
            with Cons quote Some p colon show ?thesis by simp
          next
            case OutOfFuel
            moreover from cs r1 ds n have "2 * length ds < n"
              by simp
            ultimately show ?thesis
              using V by blast
          qed
        qed
      qed
    qed
  qed
  from pv pe pm show ?case
    by blast
qed

lemma JSON_parse_fuel: "JSON_parse text \<noteq> OutOfFuel"
proof -
  have "parseValue (2 * length text + 1) text \<noteq> OutOfFuel"
    using parse_fuel [of "text" "2 * length text + 1"] by simp
  then show ?thesis
    by (simp add: JSON_parse_def split: parse.splits)
qed

section \<open>Moving a child of the list\<close>

lemma take_two_parts: "take (Suc (length A + length B)) (A @ y # B @ rest) = A @ y # B"
  by simp

lemma drop_two_parts: "drop (Suc (length A + length B)) (A @ y # B @ rest) = rest"
  by simp

lemma drop_two_parts_Suc: "drop (Suc (Suc (length A + length B))) (A @ y # B @ x # rest) = rest"
  by simp

lemma insertBefore_forward:
  "insertBefore (A @ x # B @ y # C) (length A) (Some (Suc (length A + length B))) = A @ B @ x # y # C"
  by (simp add: insertBefore_def nextElementSibling_def nth_append)

lemma insertBefore_backward:
  "insertBefore (A @ y # B @ x # C) (Suc (length A + length B)) (Some (length A)) = A @ x # y # B @ C"
  by (simp add: insertBefore_def nextElementSibling_def nth_append)

lemma insertAfter_forward:
  "insertBefore (A @ x # B @ y # C) (length A)
     (nextElementSibling (A @ x # B @ y # C) (Suc (length A + length B))) = A @ B @ y # x # C"
  by (cases C) (simp_all add: insertBefore_def nextElementSibling_def nth_append)

lemma insertAfter_backward:
  "insertBefore (A @ y # B @ x # C) (Suc (length A + length B))
     (nextElementSibling (A @ y # B @ x # C) (length A)) = A @ y # x # B @ C"
proof (cases B)
  case Nil
  then show ?thesis
    by (cases C) (simp_all add: insertBefore_def nextElementSibling_def nth_append)
next
  case (Cons b B')
  then have len: "0 < length B" by simp
  have tk: "take (Suc (length A)) (A @ y # B @ C) = A @ [y]" by simp
  have dr: "drop (Suc (length A)) (A @ y # B @ C) = B @ C" by simp
  have "insertBefore (A @ y # B @ x # C) (Suc (length A + length B)) (Some (Suc (length A)))
          = A @ y # x # B @ C"
    unfolding insertBefore_def Let_def nextElementSibling_def
    using len tk dr by (simp add: take_two_parts drop_two_parts_Suc nth_append)
  then show ?thesis
    using len by (simp add: nextElementSibling_def)
qed

lemma insertBefore_self:
  assumes "d < length xs"
  shows "insertBefore xs d (Some d) = xs" and "insertBefore xs d (nextElementSibling xs d) = xs"
proof -
  have last: "\<not> Suc d < length xs \<Longrightarrow> take d xs @ [xs ! d] = xs"
    using assms by (simp add: take_Suc_conv_app_nth [symmetric])
  have mid: "take d xs @ xs ! d # drop (Suc d) xs = xs"
    using assms by (simp add: id_take_nth_drop [symmetric])
  show "insertBefore xs d (Some d) = xs"
    using assms last mid by (simp add: insertBefore_def nextElementSibling_def)
  show "insertBefore xs d (nextElementSibling xs d) = xs"
    using assms last mid by (simp add: insertBefore_def nextElementSibling_def)
qed

lemma span_remove_drag_over: "map span (remove_drag_over t items) = map span items"
  by (cases t) (simp_all add: remove_drag_over_def map_update list_update_same_conv)

lemma findTaskItemByText_spans:
  "map span xs = map span ys \<Longrightarrow> findTaskItemByText text xs = findTaskItemByText text ys"
proof (induction xs arbitrary: ys)
  case Nil
  then show ?case by simp
next
  case (Cons x xs)
  then obtain y ys' where ys: "ys = y # ys'" "span x = span y" "map span xs = map span ys'"
    by (cases ys) auto
  with Cons.IH [of ys'] show ?case
    by simp
qed

lemma findTaskItemByText_remove_drag_over:
  "findTaskItemByText text (remove_drag_over t items) = findTaskItemByText text items"
  by (rule findTaskItemByText_spans) (rule span_remove_drag_over)

lemma task_of_remove_drag_over: "map task_of (remove_drag_over t items) = map task_of items"
  by (cases t) (simp_all add: remove_drag_over_def map_update list_update_same_conv task_of_def
      contains_def remove_def)

lemma findTaskItemByText_first:
  "span x = text \<Longrightarrow> \<forall>y\<in>set A. span y \<noteq> text \<Longrightarrow>
   findTaskItemByText text (A @ x # B) = Some (length A)"
  by (induction A) simp_all

lemma findTaskItemByText_less:
  "findTaskItemByText text xs = Some d \<Longrightarrow> d < length xs"
proof (induction xs arbitrary: d)
  case Nil
  then show ?case by simp
next
  case (Cons x xs)
  show ?case
  proof (cases "span x = text")
    case True
    with Cons.prems show ?thesis by simp
  next
    case False
    with Cons.prems obtain d' where d': "findTaskItemByText text xs = Some d'" "d = Suc d'"
      by auto
    from Cons.IH [OF d'(1)] d'(2) show ?thesis
      by simp
  qed
qed

lemma handleDrop_resolved:
  assumes "remove_drag_over (target e) (taskList s) = items"
    and "findTaskItemByText (dataTransfer e) items = Some d"
    and "closest_li (target e) = Some t" and "t < length items"
  shows "handleDrop e s = Returned (saveTasks (s\<lparr>taskList :=
           (if aboveMiddle e
            then insertBefore items d (Some t)
            else insertBefore items d (nextElementSibling items t))\<rparr>))"
  using assms by (simp add: handleDrop_def)

lemma saveTasks_taskList:
  "saveTasks (s\<lparr>taskList := ys\<rparr>) =
     s\<lparr>taskList := ys, localStorage := Some (JSON_stringify (map task_of ys)),
       setItem_calls := Suc (setItem_calls s)\<rparr>"
  by (simp add: saveTasks_def)


lemma findTaskItemByText_nth:
  assumes "i < length xs" and "\<forall>x\<in>set (take i xs). span x \<noteq> span (xs ! i)"
  shows "findTaskItemByText (span (xs ! i)) xs = Some i"
proof -
  have "findTaskItemByText (span (xs ! i)) (take i xs @ xs ! i # drop (Suc i) xs) =
          Some (length (take i xs))"
    using assms(2) by (intro findTaskItemByText_first) simp_all
  then show ?thesis
    using assms(1) by (simp add: id_take_nth_drop [symmetric])
qed

text \<open>
  Between the start of a drag and the drop, the page changes by \<open>handleDragEnter\<close> and
  \<open>handleDragLeave\<close> only: they leave every item its place and its text, so the drag data
  is still the text of the item at the same position.
\<close>

lemma nth_add_drag_over:
  "length (add_drag_over t items) = length items"
  "i < length items \<Longrightarrow> span (add_drag_over t items ! i) = span (items ! i)"
  by (cases t; simp add: add_drag_over_def nth_list_update)+

lemma nth_remove_drag_over:
  "length (remove_drag_over t items) = length items"
  "i < length items \<Longrightarrow> span (remove_drag_over t items ! i) = span (items ! i)"
  by (cases t; simp add: remove_drag_over_def nth_list_update)+

lemma handleDragStart_during_drag:
  "handleDragStart i (handleDragEnter t s) = handleDragStart i s"
  "handleDragStart i (handleDragLeave t s) = handleDragStart i s"
  by (simp_all add: handleDragStart_def handleDragEnter_def handleDragLeave_def
      nth_add_drag_over nth_remove_drag_over)

section \<open>What the handlers leave behind\<close>







lemma saveTasks_synced:
  "localStorage (saveTasks s) = Some (JSON_stringify (map task_of (taskList (saveTasks s))))"
  by (simp add: saveTasks_def)

lemma addTask_Returned:
  assumes "addTask key s = Returned s'"
  shows "s' = s \<or> (\<exists>p. s' = saveTasks p)"
  using assms by (auto simp: addTask_def Let_def split: if_splits option.splits prod.splits)

lemma deleteTask_Returned:
  assumes "deleteTask i s = Returned s'"
  shows "\<exists>p. s' = saveTasks p"
  using assms by (auto simp: deleteTask_def split: if_splits)

lemma toggleComplete_Returned:
  assumes "toggleComplete i s = Returned s'"
  shows "\<exists>p. s' = saveTasks p"
  using assms by (auto simp: toggleComplete_def split: if_splits)

lemma handleDrop_Returned:
  assumes "handleDrop e s = Returned s'"
  shows "s' = s\<lparr>taskList := remove_drag_over (target e) (taskList s)\<rparr> \<or> (\<exists>p. s' = saveTasks p)"
  using assms by (auto simp: handleDrop_def Let_def split: if_splits option.splits)


lemma getProperty_task_object:
  "getProperty (task_object t) (js ''text'') = Some (JString (fst t))"
  "getProperty (task_object t) (js ''completed'') = Some (JBool (snd t))"
  by (simp_all add: task_object_def js_def)

lemma forEach_task_objects:
  assumes "\<forall>t\<in>set ts. innerHTML (fst t) = Some (fst t, True)"
  shows "forEach_task (map task_object ts) s =
     Returned (s\<lparr>taskList := taskList s @
       map (\<lambda>t. \<lparr>span = fst t, classList = (if snd t then [''completed''] else []), draggable = True\<rparr>) ts\<rparr>)"
  using assms
proof (induction ts arbitrary: s)
  case Nil
  show ?case by simp
next
  case (Cons t ts)
  have "task_object t \<noteq> JNull"
    by (simp add: task_object_def)
  moreover have "innerHTML (fst t) = Some (fst t, True)"
    using Cons.prems by simp
  moreover have "\<forall>t\<in>set ts. innerHTML (fst t) = Some (fst t, True)"
    using Cons.prems by simp
  ultimately show ?case
    using Cons.IH
    by (simp add: getProperty_task_object truthy_property_def add_def)
qed

lemma task_of_restored:
  "task_of \<lparr>span = fst t, classList = (if snd t then [''completed''] else []), draggable = True\<rparr> = t"
  by (simp add: task_of_def contains_def)

lemma loadTasks_stringify:
  assumes "\<forall>t\<in>set ts. innerHTML (fst t) = Some (fst t, True)"
    and "localStorage page = Some (JSON_stringify ts)"
  shows "loadTasks page =
     Returned (page\<lparr>taskList := taskList page @
       map (\<lambda>t. \<lparr>span = fst t, classList = (if snd t then [''completed''] else []), draggable = True\<rparr>) ts\<rparr>)"
  using assms(2) forEach_task_objects [OF assms(1)]
  by (simp add: loadTasks_def JSON_parse_stringify)

lemma JSON_parse_null: "JSON_parse (js ''null'') = Parsed JNull"
  by code_simp


lemma characterData_plain:
  "0x26 \<notin> set t \<Longrightarrow> 0x3C \<notin> set t \<Longrightarrow> characterData t = Some (t, True)"
  by (induction t) (simp_all add: emit_def)

text \<open>
  A text without \<open>&\<close> and \<open><\<close> holds no markup: the item has its buttons, and its label
  is the text as rendered.
\<close>

lemma innerHTML_plain:
  assumes "0x26 \<notin> set t" and "0x3C \<notin> set t"
  shows "innerHTML t = map_option (\<lambda>label. (label, True)) (innerText t)"
  using assms by (simp add: innerHTML_def characterData_plain)

section \<open>Adding a task\<close>

text \<open>
  With the key \<open>Enter\<close>, an input that is not empty after trimming and markup that leaves
  the item its buttons, \<open>addTask\<close> appends exactly one item, with the label that the
  browser shows for the input and not completed, after the items there were, which it
  leaves as they are; it clears the input field and saves the new list.
\<close>

lemma addTask_appends:
  assumes "key = Some (js ''Enter'')"
    and "trim (taskInput s) \<noteq> []"
    and "innerHTML (trim (taskInput s)) = Some (label, True)"
  shows "addTask key s =
     Returned (s\<lparr>taskList := taskList s @ [\<lparr>span = label, classList = [], draggable = True\<rparr>],
       taskInput := [],
       localStorage := Some (JSON_stringify (map task_of (taskList s) @ [(label, False)])),
       setItem_calls := Suc (setItem_calls s)\<rparr>)"
  using assms by (simp add: addTask_def saveTasks_def newTaskItem_def task_of_def contains_def)

text \<open>
  C3: the script makes \<open>addTask\<close> the listener of the add button's click, but on a click
  the event has no key and \<open>addTask\<close> returns with the page as it was. With the input
  \<open>buy milk\<close>, which is not empty after trimming, the click appends no task, does not
  clear the field and saves nothing; the same input with the key \<open>Enter\<close> appends the
  task, clears the field and saves the list.
\<close>

theorem addTask_on_click:
  "trim (taskInput \<lparr>taskInput = js ''buy milk'', taskList = [], localStorage = None, setItem_calls = 0\<rparr>) =
     js ''buy milk'' \<and>
   addTask None \<lparr>taskInput = js ''buy milk'', taskList = [], localStorage = None, setItem_calls = 0\<rparr> =
   Returned \<lparr>taskInput = js ''buy milk'', taskList = [], localStorage = None, setItem_calls = 0\<rparr> \<and>
   addTask (Some (js ''Enter''))
     \<lparr>taskInput = js ''buy milk'', taskList = [], localStorage = None, setItem_calls = 0\<rparr> =
   Returned \<lparr>taskInput = [], taskList = [\<lparr>span = js ''buy milk'', classList = [], draggable = True\<rparr>],
     localStorage = Some (JSON_stringify [(js ''buy milk'', False)]), setItem_calls = 1\<rparr>"
  by (intro conjI) code_simp+

text \<open>
  C4: when the input is empty after trimming, as the empty string and three spaces are,
  \<open>addTask\<close> returns with the page unchanged, whatever the key: no task is added, nothing
  is written to the store, nothing is thrown.
\<close>

theorem addTask_blank_input:
  "(trim (taskInput s) = [] \<longrightarrow> addTask key s = Returned s) \<and>
   trim (js '''') = [] \<and> trim (js ''   '') = []"
  by (simp add: addTask_def trim_def js_def isWhiteSpace_def)

theorem addTask_blank_input_witness:
  "trim (taskInput \<lparr>taskInput = js ''   '', taskList = [], localStorage = None, setItem_calls = 0\<rparr>) = [] \<and>
   addTask (Some (js ''Enter''))
     \<lparr>taskInput = js ''   '', taskList = [], localStorage = None, setItem_calls = 0\<rparr> =
   Returned \<lparr>taskInput = js ''   '', taskList = [], localStorage = None, setItem_calls = 0\<rparr>"
  using addTask_blank_input [of
      "\<lparr>taskInput = js ''   '', taskList = [], localStorage = None, setItem_calls = 0\<rparr>"
      "Some (js ''Enter'')"]
  by (simp add: trim_def js_def isWhiteSpace_def)

text \<open>
  C10: \<open>addTask\<close> changes the page only when the event's key is \<open>Enter\<close>. With any other
  key, and on the add button's click (whose event has no key), the task list, the input
  field and the store, with its count of writes, are what they were.
\<close>

theorem addTask_needs_Enter:
  "(key \<noteq> Some (js ''Enter'') \<longrightarrow> addTask key s = Returned s) \<and> addTask None s = Returned s"
  by (simp add: addTask_def)

theorem addTask_needs_Enter_witness:
  "Some (js ''a'') \<noteq> Some (js ''Enter'') \<and>
   addTask (Some (js ''a''))
     \<lparr>taskInput = js ''buy milk'', taskList = [], localStorage = None, setItem_calls = 0\<rparr> =
   Returned \<lparr>taskInput = js ''buy milk'', taskList = [], localStorage = None, setItem_calls = 0\<rparr>"
  using addTask_needs_Enter [of "Some (js ''a'')"
      "\<lparr>taskInput = js ''buy milk'', taskList = [], localStorage = None, setItem_calls = 0\<rparr>"]
  by (simp add: js_def)

section \<open>Deleting and completing a task\<close>






section \<open>Reordering by drag and drop\<close>

text \<open>
  C7: a drag starts on the item at position \<open>i\<close>, which no earlier item shares its text
  with, and ends with a drop on the item at position \<open>t\<close>. The dragged item is put
  immediately before the target if \<open>clientY < top + clientHeight / 2\<close> holds in the
  script's double arithmetic, and immediately after it otherwise, whether it stood before
  the target or after it; the other items keep their order; dropped on itself, the item
  stays where it is. The list is then saved: the store holds the serialisation of the new
  list, by one more write. Where the numbers and their sum are doubles, the test is that
  the pointer is above the middle of the target's box. On \<open>[A, B, C]\<close>, dragging \<open>A\<close>
  onto \<open>C\<close> below the middle gives \<open>[B, C, A]\<close>, and dragging \<open>C\<close> onto \<open>A\<close> above the
  middle gives \<open>[C, A, B]\<close>.
\<close>

theorem handleDrop_places_dragged:
  assumes "handleDragStart i s = Some (dataTransfer e)"
    and "\<forall>earlier\<in>set (take i (taskList s)). span earlier \<noteq> dataTransfer e"
    and "closest_li (target e) = Some t"
    and "remove_drag_over (target e) (taskList s) = items"
  shows
    "(items = A @ x # B @ y # C \<and> i = length A \<and> t = Suc (length A + length B) \<longrightarrow>
        handleDrop e s = Returned (s\<lparr>taskList :=
            (if aboveMiddle e then A @ B @ x # y # C else A @ B @ y # x # C),
          localStorage := Some (JSON_stringify (map task_of
            (if aboveMiddle e then A @ B @ x # y # C else A @ B @ y # x # C))),
          setItem_calls := Suc (setItem_calls s)\<rparr>)) \<and>
     (items = A @ y # B @ x # C \<and> t = length A \<and> i = Suc (length A + length B) \<longrightarrow>
        handleDrop e s = Returned (s\<lparr>taskList :=
            (if aboveMiddle e then A @ x # y # B @ C else A @ y # x # B @ C),
          localStorage := Some (JSON_stringify (map task_of
            (if aboveMiddle e then A @ x # y # B @ C else A @ y # x # B @ C))),
          setItem_calls := Suc (setItem_calls s)\<rparr>)) \<and>
     (i = t \<longrightarrow>
        handleDrop e s = Returned (s\<lparr>taskList := items,
          localStorage := Some (JSON_stringify (map task_of items)),
          setItem_calls := Suc (setItem_calls s)\<rparr>)) \<and>
     (toDouble (clientY e) = Finite (clientY e) \<and> toDouble (top e) = Finite (top e) \<and>
      toDouble (of_int (clientHeight e) / 2) = Finite (of_int (clientHeight e) / 2) \<and>
      toDouble (top e + of_int (clientHeight e) / 2) = Finite (top e + of_int (clientHeight e) / 2) \<longrightarrow>
        aboveMiddle e = (clientY e < top e + of_int (clientHeight e) / 2))"
proof -
  from assms(1) have i: "i < length (taskList s)" and dragged: "dataTransfer e = span (taskList s ! i)"
    by (simp_all add: handleDragStart_def split: if_splits)
  from assms(2) have "\<forall>earlier\<in>set (take i (taskList s)). span earlier \<noteq> span (taskList s ! i)"
    by (simp add: dragged)
  with i have "findTaskItemByText (span (taskList s ! i)) (taskList s) = Some i"
    by (rule findTaskItemByText_nth)
  then have found: "findTaskItemByText (dataTransfer e) items = Some i"
    by (simp add: dragged assms(4) [symmetric] findTaskItemByText_remove_drag_over)
  show ?thesis
  proof (intro conjI impI)
    assume a: "items = A @ x # B @ y # C \<and> i = length A \<and> t = Suc (length A + length B)"
    then have "t < length items"
      by simp
    from handleDrop_resolved [OF assms(4) found assms(3) this] a
    show "handleDrop e s = Returned (s\<lparr>taskList :=
            (if aboveMiddle e then A @ B @ x # y # C else A @ B @ y # x # C),
          localStorage := Some (JSON_stringify (map task_of
            (if aboveMiddle e then A @ B @ x # y # C else A @ B @ y # x # C))),
          setItem_calls := Suc (setItem_calls s)\<rparr>)"
      by (simp only: insertBefore_forward insertAfter_forward saveTasks_taskList)
  next
    assume a: "items = A @ y # B @ x # C \<and> t = length A \<and> i = Suc (length A + length B)"
    then have "t < length items"
      by simp
    from handleDrop_resolved [OF assms(4) found assms(3) this] a
    show "handleDrop e s = Returned (s\<lparr>taskList :=
            (if aboveMiddle e then A @ x # y # B @ C else A @ y # x # B @ C),
          localStorage := Some (JSON_stringify (map task_of
            (if aboveMiddle e then A @ x # y # B @ C else A @ y # x # B @ C))),
          setItem_calls := Suc (setItem_calls s)\<rparr>)"
      by (simp only: insertBefore_backward insertAfter_backward saveTasks_taskList)
  next
    assume a: "i = t"
    from found have d: "i < length items"
      by (rule findTaskItemByText_less)
    with a have "t < length items"
      by simp
    from handleDrop_resolved [OF assms(4) found assms(3) this] a d
    show "handleDrop e s = Returned (s\<lparr>taskList := items,
          localStorage := Some (JSON_stringify (map task_of items)),
          setItem_calls := Suc (setItem_calls s)\<rparr>)"
      by (simp add: insertBefore_self saveTasks_taskList)
  next
    assume "toDouble (clientY e) = Finite (clientY e) \<and> toDouble (top e) = Finite (top e) \<and>
      toDouble (of_int (clientHeight e) / 2) = Finite (of_int (clientHeight e) / 2) \<and>
      toDouble (top e + of_int (clientHeight e) / 2) = Finite (top e + of_int (clientHeight e) / 2)"
    then show "aboveMiddle e = (clientY e < top e + of_int (clientHeight e) / 2)"
      by (simp add: aboveMiddle_def)
  qed
qed

theorem handleDrop_places_dragged_witness:
  "handleDrop \<lparr>target = Inside 2, dataTransfer = js ''A'', clientY = 130, top = 100, clientHeight = 40\<rparr>
     \<lparr>taskInput = [], taskList = [newTaskItem (js ''A''), newTaskItem (js ''B''), newTaskItem (js ''C'')],
      localStorage = None, setItem_calls = 0\<rparr>
   = Returned
     \<lparr>taskInput = [], taskList = [newTaskItem (js ''B''), newTaskItem (js ''C''), newTaskItem (js ''A'')],
      localStorage = Some (JSON_stringify [(js ''B'', False), (js ''C'', False), (js ''A'', False)]),
      setItem_calls = 1\<rparr> \<and>
   handleDrop \<lparr>target = Item 0, dataTransfer = js ''C'', clientY = 119, top = 100, clientHeight = 40\<rparr>
     \<lparr>taskInput = [], taskList = [newTaskItem (js ''A''), newTaskItem (js ''B''), newTaskItem (js ''C'')],
      localStorage = None, setItem_calls = 0\<rparr>
   = Returned
     \<lparr>taskInput = [], taskList = [newTaskItem (js ''C''), newTaskItem (js ''A''), newTaskItem (js ''B'')],
      localStorage = Some (JSON_stringify [(js ''C'', False), (js ''A'', False), (js ''B'', False)]),
      setItem_calls = 1\<rparr> \<and>
   handleDrop \<lparr>target = Item 1, dataTransfer = js ''B'', clientY = 119, top = 100, clientHeight = 40\<rparr>
     \<lparr>taskInput = [], taskList = [newTaskItem (js ''A''), newTaskItem (js ''B''), newTaskItem (js ''C'')],
      localStorage = None, setItem_calls = 0\<rparr>
   = Returned
     \<lparr>taskInput = [], taskList = [newTaskItem (js ''A''), newTaskItem (js ''B''), newTaskItem (js ''C'')],
      localStorage = Some (JSON_stringify [(js ''A'', False), (js ''B'', False), (js ''C'', False)]),
      setItem_calls = 1\<rparr> \<and>
   aboveMiddle \<lparr>target = Item 0, dataTransfer = js ''C'', clientY = 119, top = 100, clientHeight = 40\<rparr> =
     ((119 :: rat) < 100 + 40 / 2)"
proof -
  let ?s = "\<lparr>taskInput = [], taskList = [newTaskItem (js ''A''), newTaskItem (js ''B''), newTaskItem (js ''C'')],
      localStorage = None, setItem_calls = 0\<rparr>"
  let ?items = "[newTaskItem (js ''A''), newTaskItem (js ''B''), newTaskItem (js ''C'')]"
  let ?below = "\<lparr>target = Inside 2, dataTransfer = js ''A'', clientY = 130, top = 100, clientHeight = 40\<rparr>"
  let ?above = "\<lparr>target = Item 0, dataTransfer = js ''C'', clientY = 119, top = 100, clientHeight = 40\<rparr>"
  let ?self = "\<lparr>target = Item 1, dataTransfer = js ''B'', clientY = 119, top = 100, clientHeight = 40\<rparr>"
  have start: "handleDragStart 0 ?s = Some (dataTransfer ?below)"
    "handleDragStart 2 ?s = Some (dataTransfer ?above)"
    "handleDragStart 1 ?s = Some (dataTransfer ?self)"
    by code_simp+
  have first: "\<forall>earlier\<in>set (take 0 (taskList ?s)). span earlier \<noteq> dataTransfer ?below"
    "\<forall>earlier\<in>set (take 2 (taskList ?s)). span earlier \<noteq> dataTransfer ?above"
    "\<forall>earlier\<in>set (take 1 (taskList ?s)). span earlier \<noteq> dataTransfer ?self"
    by code_simp+
  have onto: "closest_li (target ?below) = Some 2" "closest_li (target ?above) = Some 0"
    "closest_li (target ?self) = Some 1"
    by code_simp+
  have items: "remove_drag_over (target ?below) (taskList ?s) = ?items"
    "remove_drag_over (target ?above) (taskList ?s) = ?items"
    "remove_drag_over (target ?self) (taskList ?s) = ?items"
    by code_simp+
  have middle: "\<not> aboveMiddle ?below" "aboveMiddle ?above"
    by code_simp+
  have doubles: "toDouble (clientY ?above) = Finite (clientY ?above)"
    "toDouble (top ?above) = Finite (top ?above)"
    "toDouble (of_int (clientHeight ?above) / 2) = Finite (of_int (clientHeight ?above) / 2)"
    "toDouble (top ?above + of_int (clientHeight ?above) / 2) =
       Finite (top ?above + of_int (clientHeight ?above) / 2)"
    by code_simp+
  have forward: "handleDrop ?below ?s = Returned
     \<lparr>taskInput = [], taskList = [newTaskItem (js ''B''), newTaskItem (js ''C''), newTaskItem (js ''A'')],
      localStorage = Some (JSON_stringify [(js ''B'', False), (js ''C'', False), (js ''A'', False)]),
      setItem_calls = 1\<rparr>"
    using handleDrop_places_dragged [OF start(1) first(1) onto(1) items(1),
        where A = "[]" and x = "newTaskItem (js ''A'')" and B = "[newTaskItem (js ''B'')]"
        and y = "newTaskItem (js ''C'')" and C = "[]"] middle(1)
    by (simp add: task_of_def contains_def newTaskItem_def)
  have backward: "handleDrop ?above ?s = Returned
     \<lparr>taskInput = [], taskList = [newTaskItem (js ''C''), newTaskItem (js ''A''), newTaskItem (js ''B'')],
      localStorage = Some (JSON_stringify [(js ''C'', False), (js ''A'', False), (js ''B'', False)]),
      setItem_calls = 1\<rparr>"
    using handleDrop_places_dragged [OF start(2) first(2) onto(2) items(2),
        where A = "[]" and y = "newTaskItem (js ''A'')" and B = "[newTaskItem (js ''B'')]"
        and x = "newTaskItem (js ''C'')" and C = "[]"] middle(2)
    by (simp add: task_of_def contains_def newTaskItem_def)
  have self: "handleDrop ?self ?s = Returned
     \<lparr>taskInput = [], taskList = ?items,
      localStorage = Some (JSON_stringify [(js ''A'', False), (js ''B'', False), (js ''C'', False)]),
      setItem_calls = 1\<rparr>"
    using handleDrop_places_dragged [OF start(3) first(3) onto(3) items(3)]
    by (simp add: task_of_def contains_def newTaskItem_def)
  have exact: "aboveMiddle ?above = ((119 :: rat) < 100 + 40 / 2)"
    using handleDrop_places_dragged [OF start(2) first(2) onto(2) items(2)] doubles
    by simp
  from forward backward self exact show ?thesis
    by blast
qed

text \<open>
  Two drops where the dragged item does not land where the pointer says. In the list
  \<open>[milk, tea, milk]\<close> with the second \<open>milk\<close> completed, that one is dragged onto \<open>tea\<close>
  below the middle: it is the first \<open>milk\<close> that is moved after \<open>tea\<close>, where the dragged
  one already stood. In the list \<open>[A, B]\<close>, \<open>B\<close> is dropped on \<open>A\<close> with the pointer at 70,
  above the middle of \<open>A\<close> at \<open>49.5 + 2 ^ -47 + 20.5\<close>: the sum rounds to 70, the test
  fails and \<open>B\<close> stays after \<open>A\<close>.
\<close>

theorem handleDrop_places_dragged_counterexample:
  "handleDragStart 2
     \<lparr>taskInput = [],
      taskList = [newTaskItem (js ''milk''), newTaskItem (js ''tea''),
                  \<lparr>span = js ''milk'', classList = [''completed''], draggable = True\<rparr>],
      localStorage = None, setItem_calls = 0\<rparr> = Some (js ''milk'') \<and>
   handleDrop \<lparr>target = Item 1, dataTransfer = js ''milk'', clientY = 130, top = 100, clientHeight = 40\<rparr>
     \<lparr>taskInput = [],
      taskList = [newTaskItem (js ''milk''), newTaskItem (js ''tea''),
                  \<lparr>span = js ''milk'', classList = [''completed''], draggable = True\<rparr>],
      localStorage = None, setItem_calls = 0\<rparr>
   = Returned
     \<lparr>taskInput = [],
      taskList = [newTaskItem (js ''tea''), newTaskItem (js ''milk''),
                  \<lparr>span = js ''milk'', classList = [''completed''], draggable = True\<rparr>],
      localStorage = Some (JSON_stringify [(js ''tea'', False), (js ''milk'', False), (js ''milk'', True)]),
      setItem_calls = 1\<rparr> \<and>
   [(js ''tea'', False), (js ''milk'', False), (js ''milk'', True)] \<noteq>
   [(js ''milk'', False), (js ''tea'', False), (js ''milk'', True)] \<and>
   (70 :: rat) < 99 / 2 + 1 / 2 ^ 47 + 41 / 2 \<and>
   handleDrop \<lparr>target = Item 0, dataTransfer = js ''B'', clientY = 70, top = 99 / 2 + 1 / 2 ^ 47, clientHeight = 41\<rparr>
     \<lparr>taskInput = [], taskList = [newTaskItem (js ''A''), newTaskItem (js ''B'')],
      localStorage = None, setItem_calls = 0\<rparr>
   = Returned
     \<lparr>taskInput = [], taskList = [newTaskItem (js ''A''), newTaskItem (js ''B'')],
      localStorage = Some (JSON_stringify [(js ''A'', False), (js ''B'', False)]), setItem_calls = 1\<rparr>"
  by (intro conjI) code_simp+



section \<open>Saving and restoring\<close>

text \<open>
  When an add, a delete, a toggle or a drop returns, the store holds the serialisation of
  the list as it then is, each item as its text and completed flag, in display order. The
  exceptions change no task: an \<open>addTask\<close> that returns with the page as it was, and a
  drop without a resolvable dragged item or target, which leaves the tasks and the store
  as they were.
\<close>

lemma store_follows_list:
  "(addTask key s = Returned s' \<longrightarrow>
      s' = s \<or> localStorage s' = Some (JSON_stringify (map task_of (taskList s')))) \<and>
   (deleteTask i s = Returned s' \<longrightarrow>
      localStorage s' = Some (JSON_stringify (map task_of (taskList s')))) \<and>
   (toggleComplete i s = Returned s' \<longrightarrow>
      localStorage s' = Some (JSON_stringify (map task_of (taskList s')))) \<and>
   (handleDrop e s = Returned s' \<longrightarrow>
      (map task_of (taskList s') = map task_of (taskList s) \<and> localStorage s' = localStorage s) \<or>
      localStorage s' = Some (JSON_stringify (map task_of (taskList s'))))"
proof (intro conjI impI)
  assume "addTask key s = Returned s'"
  from addTask_Returned [OF this]
  show "s' = s \<or> localStorage s' = Some (JSON_stringify (map task_of (taskList s')))"
    using saveTasks_synced by blast
next
  assume "deleteTask i s = Returned s'"
  from deleteTask_Returned [OF this]
  show "localStorage s' = Some (JSON_stringify (map task_of (taskList s')))"
    using saveTasks_synced by blast
next
  assume "toggleComplete i s = Returned s'"
  from toggleComplete_Returned [OF this]
  show "localStorage s' = Some (JSON_stringify (map task_of (taskList s')))"
    using saveTasks_synced by blast
next
  assume "handleDrop e s = Returned s'"
  from handleDrop_Returned [OF this]
  show "(map task_of (taskList s') = map task_of (taskList s) \<and> localStorage s' = localStorage s) \<or>
      localStorage s' = Some (JSON_stringify (map task_of (taskList s')))"
    using saveTasks_synced by (auto simp: task_of_remove_drag_over)
qed

text \<open>
  C8: an add that changes the list and leaves the store behind. The list shows \<open>tea\<close> and
  the store holds it. With the input \<open><!--\<close> and the key \<open>Enter\<close>, the text opens a
  comment that takes the rest of the item's markup: \<open>addTask\<close> appends an item with an
  empty label and no buttons and clears the field, then throws a TypeError at
  \<open>deleteBtn.addEventListener\<close> and never reaches \<open>saveTasks\<close>. The list has two items,
  the store still holds one, and nothing has been written.
\<close>

theorem addTask_comment_not_saved:
  "addTask (Some (js ''Enter''))
     \<lparr>taskInput = js ''<!--'', taskList = [newTaskItem (js ''tea'')],
      localStorage = Some (JSON_stringify [(js ''tea'', False)]), setItem_calls = 1\<rparr> =
   Thrown TypeError
     \<lparr>taskInput = [],
      taskList = [newTaskItem (js ''tea''), \<lparr>span = [], classList = [], draggable = False\<rparr>],
      localStorage = Some (JSON_stringify [(js ''tea'', False)]), setItem_calls = 1\<rparr> \<and>
   map task_of [newTaskItem (js ''tea''), \<lparr>span = [], classList = [], draggable = False\<rparr>] =
     [(js ''tea'', False), ([], False)] \<and>
   Some (JSON_stringify [(js ''tea'', False)]) \<noteq>
   Some (JSON_stringify [(js ''tea'', False), ([], False)])"
  by (intro conjI) code_simp+

text \<open>
  For every list whose item texts the browser shows unchanged, with the buttons in place
  (\<open>innerHTML_plain\<close> names many), saving the list and loading it into an empty page
  gives the same tasks in the same order, each with its text and its completed flag.
\<close>

lemma restore_after_persist:
  assumes "\<forall>taskItem\<in>set (taskList s). innerHTML (span taskItem) = Some (span taskItem, True)"
    and "taskList page = []"
    and "localStorage page = localStorage (saveTasks s)"
  shows "\<exists>restored. loadTasks page = Returned (page\<lparr>taskList := restored\<rparr>) \<and>
           map task_of restored = map task_of (taskList s)"
proof -
  have "\<forall>t\<in>set (map task_of (taskList s)). innerHTML (fst t) = Some (fst t, True)"
    using assms(1) by (simp add: task_of_def)
  moreover have "localStorage page = Some (JSON_stringify (map task_of (taskList s)))"
    using assms(3) by (simp add: saveTasks_def)
  ultimately have "loadTasks page =
     Returned (page\<lparr>taskList := taskList page @
       map (\<lambda>t. \<lparr>span = fst t, classList = (if snd t then [''completed''] else []), draggable = True\<rparr>)
         (map task_of (taskList s))\<rparr>)"
    by (rule loadTasks_stringify)
  moreover have "map task_of
       (map (\<lambda>t. \<lparr>span = fst t, classList = (if snd t then [''completed''] else []), draggable = True\<rparr>)
         (map task_of (taskList s))) = map task_of (taskList s)"
    by (simp add: task_of_restored o_def)
  ultimately show ?thesis
    using assms(2) by auto
qed

text \<open>
  C1: a round trip that changes a task. The task typed as \<open>&amp;amp;\<close> is shown as
  \<open>&amp;\<close> and saved with that text. \<open>loadTasks\<close> puts the saved text into the markup
  of the item as it is, where \<open>&amp;\<close> is a character reference: the task comes back
  with the text \<open>&\<close>.
\<close>

theorem restore_changes_text:
  \<open>addTask (Some (js ''Enter''))
     \<lparr>taskInput = js ''&amp;amp;'', taskList = [], localStorage = None, setItem_calls = 0\<rparr> =
   Returned \<lparr>taskInput = [], taskList = [\<lparr>span = js ''&amp;'', classList = [], draggable = True\<rparr>],
     localStorage = Some (js ''[{"text":"&amp;","completed":false}]''), setItem_calls = 1\<rparr> \<and>
   saveTasks \<lparr>taskInput = [], taskList = [\<lparr>span = js ''&amp;'', classList = [], draggable = True\<rparr>],
     localStorage = None, setItem_calls = 0\<rparr> =
   \<lparr>taskInput = [], taskList = [\<lparr>span = js ''&amp;'', classList = [], draggable = True\<rparr>],
     localStorage = Some (js ''[{"text":"&amp;","completed":false}]''), setItem_calls = 1\<rparr> \<and>
   loadTasks \<lparr>taskInput = [], taskList = [],
     localStorage = Some (js ''[{"text":"&amp;","completed":false}]''), setItem_calls = 1\<rparr> =
   Returned \<lparr>taskInput = [], taskList = [\<lparr>span = js ''&'', classList = [], draggable = True\<rparr>],
     localStorage = Some (js ''[{"text":"&amp;","completed":false}]''), setItem_calls = 1\<rparr> \<and>
   map task_of [\<lparr>span = js ''&'', classList = [], draggable = True\<rparr>] \<noteq>
   map task_of [\<lparr>span = js ''&amp;'', classList = [], draggable = True\<rparr>]\<close>
  by (intro conjI) code_simp+

text \<open>
  C2: with the key absent, or holding JSON text of a falsy value (\<open>null\<close>, \<open>false\<close>,
  \<open>0\<close>, \<open>""\<close>) or of the empty array, \<open>loadTasks\<close> returns with the page as it
  was: the list stays empty and nothing is thrown. A value that is not JSON makes it
  throw a SyntaxError, and a truthy value that is not an array a TypeError, both with the
  page as it was.
\<close>

theorem loadTasks_nothing_to_restore:
  "(localStorage s = None \<longrightarrow> loadTasks s = Returned s) \<and>
   (localStorage s = Some stored \<and> JSON_parse stored = Parsed v \<and> (\<not> truthy v \<or> v = JArray []) \<longrightarrow>
      loadTasks s = Returned s) \<and>
   (localStorage s = Some stored \<and> JSON_parse stored = Malformed \<longrightarrow> loadTasks s = Thrown SyntaxError s) \<and>
   (localStorage s = Some stored \<and> JSON_parse stored = Parsed v \<and> truthy v \<and> (\<forall>vs. v \<noteq> JArray vs) \<longrightarrow>
      loadTasks s = Thrown TypeError s)"
proof (intro conjI impI)
  assume "localStorage s = None"
  then show "loadTasks s = Returned s"
    by (simp add: loadTasks_def JSON_parse_null)
next
  assume "localStorage s = Some stored \<and> JSON_parse stored = Parsed v \<and> (\<not> truthy v \<or> v = JArray [])"
  then show "loadTasks s = Returned s"
    by (auto simp: loadTasks_def)
next
  assume "localStorage s = Some stored \<and> JSON_parse stored = Malformed"
  then show "loadTasks s = Thrown SyntaxError s"
    by (simp add: loadTasks_def)
next
  assume "localStorage s = Some stored \<and> JSON_parse stored = Parsed v \<and> truthy v \<and> (\<forall>vs. v \<noteq> JArray vs)"
  then show "loadTasks s = Thrown TypeError s"
    by (cases v) (simp_all add: loadTasks_def)
qed

theorem loadTasks_nothing_to_restore_witness:
  \<open>loadTasks \<lparr>taskInput = [], taskList = [], localStorage = None, setItem_calls = 0\<rparr> =
     Returned \<lparr>taskInput = [], taskList = [], localStorage = None, setItem_calls = 0\<rparr> \<and>
   loadTasks \<lparr>taskInput = [], taskList = [], localStorage = Some (js ''[]''), setItem_calls = 0\<rparr> =
     Returned \<lparr>taskInput = [], taskList = [], localStorage = Some (js ''[]''), setItem_calls = 0\<rparr> \<and>
   loadTasks \<lparr>taskInput = [], taskList = [], localStorage = Some (js ''[{"text":''), setItem_calls = 0\<rparr> =
     Thrown SyntaxError
       \<lparr>taskInput = [], taskList = [], localStorage = Some (js ''[{"text":''), setItem_calls = 0\<rparr> \<and>
   loadTasks \<lparr>taskInput = [], taskList = [], localStorage = Some (js ''{"tasks":[]}''), setItem_calls = 0\<rparr> =
     Thrown TypeError
       \<lparr>taskInput = [], taskList = [], localStorage = Some (js ''{"tasks":[]}''), setItem_calls = 0\<rparr>\<close>
proof -
  have empty: \<open>JSON_parse (js ''[]'') = Parsed (JArray [])\<close>
    by code_simp
  have cut: \<open>JSON_parse (js ''[{"text":'') = Malformed\<close>
    by code_simp
  have obj: \<open>JSON_parse (js ''{"tasks":[]}'') = Parsed (JObject [(js ''tasks'', JArray [])])\<close>
    by code_simp
  show ?thesis
    using
      loadTasks_nothing_to_restore [where
        s = "\<lparr>taskInput = [], taskList = [], localStorage = None, setItem_calls = 0\<rparr>"]
      loadTasks_nothing_to_restore [where
        s = "\<lparr>taskInput = [], taskList = [], localStorage = Some (js ''[]''), setItem_calls = 0\<rparr>"
        and stored = "js ''[]''" and v = "JArray []"]
      loadTasks_nothing_to_restore [where
        s = \<open>\<lparr>taskInput = [], taskList = [], localStorage = Some (js ''[{"text":''), setItem_calls = 0\<rparr>\<close>
        and stored = \<open>js ''[{"text":''\<close>]
      loadTasks_nothing_to_restore [where
        s = \<open>\<lparr>taskInput = [], taskList = [], localStorage = Some (js ''{"tasks":[]}''), setItem_calls = 0\<rparr>\<close>
        and stored = \<open>js ''{"tasks":[]}''\<close> and v = "JObject [(js ''tasks'', JArray [])]"]
    by (simp add: empty cut obj)
qed

text \<open>
  A store that holds plain text instead of JSON: the load throws.
\<close>

theorem loadTasks_unparsable_counterexample:
  "loadTasks \<lparr>taskInput = [], taskList = [], localStorage = Some (js ''buy milk''), setItem_calls = 0\<rparr> =
     Thrown SyntaxError
       \<lparr>taskInput = [], taskList = [], localStorage = Some (js ''buy milk''), setItem_calls = 0\<rparr>"
  by code_simp

end
